theory Spec2Isabelle
  imports Complex_Main "HOL-Library.Log_Nat"
begin

section \<open>Data model\<close>

text \<open>
  The goal tracker exists twice in the sources with the same streak arithmetic: as the
  persisted store (\<^verbatim>\<open>store.ts\<close>, \<^verbatim>\<open>toggleGoalCompletion\<close> inside \<^verbatim>\<open>useStore\<close>) and as the
  \<^verbatim>\<open>GoalTracker\<close> component (\<^verbatim>\<open>FocusTimer.tsx\<close>, state held in two \<^verbatim>\<open>useState\<close> cells).
  Both are embedded below over one data model. The first, smaller store of \<^verbatim>\<open>store.ts\<close>
  (a \<^verbatim>\<open>completed\<close> flag per goal, no ledger) takes part through its loader only.

  JavaScript numbers that hold counters are modelled as \<^typ>\<open>int\<close> (a persisted state may
  hold any integer, also a negative one); a \<^verbatim>\<open>Date\<close> is its millisecond time stamp.
  The code adds and subtracts 1 on doubles, which is the integer operation as long as the
  counters stay within the safe integers (magnitude below \<open>2 ^ 53\<close>); beyond them the code
  rounds and the model does not follow.
  The field \<^verbatim>\<open>id\<close> of a goal is named \<open>gid\<close>, the field \<^verbatim>\<open>goals\<close> of a day entry
  \<open>day_goals\<close> and the field \<^verbatim>\<open>completed\<close> of a day's goal record keeps its name.
\<close>

datatype GoalCategory = Health | Learning | Productivity | Personal | Creative | Other

datatype GoalFrequency = Daily | Weekly | Monthly

text \<open>\<^verbatim>\<open>GoalStatus\<close> of the component, and of the store.\<close>

datatype GoalStatus = Active | Paused | Completed | Archived

datatype StoreGoalStatus = SBacklog | SActive | SInProgress | SCompleted | SArchived

type_synonym Date = int

record 'st Goal =
  gid :: string
  title :: string
  description :: string
  category :: GoalCategory
  frequency :: GoalFrequency
  status :: 'st
  targetCount :: int
  currentCount :: int
  streak :: int
  bestStreak :: int
  color :: string
  icon :: string
  createdAt :: Date
  lastCompleted :: "Date option"
  history :: "(string \<times> bool) list"

record GoalProgress =
  goalId :: string
  completed :: bool

text \<open>
  \<^verbatim>\<open>DailyProgress\<close>: the component's entry has \<^verbatim>\<open>date\<close> and \<^verbatim>\<open>goals\<close>; the store's entry
  extends it by \<^verbatim>\<open>tasks\<close> (pairs of \<^verbatim>\<open>taskId\<close> and \<^verbatim>\<open>completed\<close>).
\<close>

record DailyProgress =
  date :: string
  day_goals :: "GoalProgress list"

record StoreDailyProgress = DailyProgress +
  tasks :: "(string \<times> bool) list"

text \<open>
  The part of the state the goal operations read and write. The store's \<^verbatim>\<open>set\<close> merges the
  returned fields into the rest of the state, which the record extension stands for.
\<close>

record ('st, 'day) GoalState =
  goals :: "'st Goal list"
  dailyProgress :: "'day list"

text \<open>
  The clock readings of one call: \<^verbatim>\<open>new Date().toISOString().split('T')[0]\<close> (\<open>today\<close>),
  the same for the date moved back by one day (\<open>yesterdayStr\<close>), and \<^verbatim>\<open>new Date()\<close>.
\<close>

record Clock =
  today :: string
  yesterdayStr :: string
  now :: Date

section \<open>Ledger lookups\<close>

text \<open>
  \<^verbatim>\<open>entry.goals.find(g => g.goalId === goalId)?.completed\<close> read as a truth value
  (\<^verbatim>\<open>undefined\<close> is falsy), and the same behind
  \<^verbatim>\<open>dailyProgress.find(p => p.date === day)?\<close>: the first entry of that date decides, and
  in it the first record of the goal.
\<close>

definition completedIn :: "GoalProgress list \<Rightarrow> string \<Rightarrow> bool" where
  "completedIn rs g =
     (case find (\<lambda>r. goalId r = g) rs of
        None \<Rightarrow> False
      | Some r \<Rightarrow> completed r)"

definition isCompletedOn :: "('a DailyProgress_scheme) list \<Rightarrow> string \<Rightarrow> string \<Rightarrow> bool" where
  "isCompletedOn dp day g =
     (case find (\<lambda>p. date p = day) dp of
        None \<Rightarrow> False
      | Some p \<Rightarrow> completedIn (day_goals p) g)"

section \<open>toggleGoalCompletion\<close>

text \<open>The goal update of the branch "Undo completion".\<close>

definition undoGoal :: "('st, 'z) Goal_scheme \<Rightarrow> ('st, 'z) Goal_scheme" where
  "undoGoal g =
     (let newStreak = (if streak g > 0 then streak g - 1 else 0)
      in g\<lparr>currentCount := max 0 (currentCount g - 1),
           streak := newStreak,
           lastCompleted := (if currentCount g = 1 then None else lastCompleted g)\<rparr>)"

text \<open>The goal update of the branch "Mark as completed".\<close>

definition completeGoal ::
  "('a DailyProgress_scheme) list \<Rightarrow> Clock \<Rightarrow> string \<Rightarrow> ('st, 'z) Goal_scheme \<Rightarrow> ('st, 'z) Goal_scheme" where
  "completeGoal dp clk goalId' g =
     (let completedYesterday = isCompletedOn dp (yesterdayStr clk) goalId';
          newStreak = (if completedYesterday then streak g + 1 else 1);
          newBestStreak = max (bestStreak g) newStreak
      in g\<lparr>currentCount := currentCount g + 1,
           streak := newStreak,
           bestStreak := newBestStreak,
           lastCompleted := Some (now clk)\<rparr>)"

text \<open>\<^verbatim>\<open>day.goals.map(g => g.goalId === goalId ? { ...g, completed: b } : g)\<close>\<close>

definition setCompleted :: "string \<Rightarrow> bool \<Rightarrow> GoalProgress list \<Rightarrow> GoalProgress list" where
  "setCompleted goalId' b rs = map (\<lambda>r. if goalId r = goalId' then r\<lparr>completed := b\<rparr> else r) rs"

text \<open>The ledger update of the undo branch: every entry dated today has the goal's records cleared.\<close>

definition undoProgress ::
  "string \<Rightarrow> string \<Rightarrow> ('a DailyProgress_scheme) list \<Rightarrow> ('a DailyProgress_scheme) list" where
  "undoProgress today' goalId' dp =
     map (\<lambda>day. if date day = today'
                then day\<lparr>day_goals := setCompleted goalId' False (day_goals day)\<rparr>
                else day) dp"

text \<open>
  The ledger update of the completion branch on the entries that exist: an entry dated today
  gets the goal's record set, or a new record appended when it has none.
\<close>

definition completeProgress ::
  "string \<Rightarrow> string \<Rightarrow> ('a DailyProgress_scheme) list \<Rightarrow> ('a DailyProgress_scheme) list" where
  "completeProgress today' goalId' dp =
     map (\<lambda>day. if date day = today'
                then (case find (\<lambda>r. goalId r = goalId') (day_goals day) of
                        Some existingGoal \<Rightarrow>
                          day\<lparr>day_goals := setCompleted goalId' True (day_goals day)\<rparr>
                      | None \<Rightarrow>
                          day\<lparr>day_goals := day_goals day @ [\<lparr>goalId = goalId', completed = True\<rparr>]\<rparr>)
                else day) dp"

text \<open>\<^verbatim>\<open>toggleGoalCompletion\<close> of \<^verbatim>\<open>store.ts\<close>.\<close>

definition toggleGoalCompletion ::
  "Clock \<Rightarrow> string \<Rightarrow> ('st, StoreDailyProgress, 'z) GoalState_scheme
     \<Rightarrow> ('st, StoreDailyProgress, 'z) GoalState_scheme" where
  "toggleGoalCompletion clk goalId' state =
     (case find (\<lambda>g. gid g = goalId') (goals state) of
        None \<Rightarrow> state
      | Some goal \<Rightarrow>
          (let existingProgress = find (\<lambda>p. date p = today clk) (dailyProgress state);
               isCompletedToday =
                 (case existingProgress of
                    None \<Rightarrow> False
                  | Some p \<Rightarrow> completedIn (day_goals p) goalId')
           in if isCompletedToday
              then state\<lparr>goals := map (\<lambda>g. if gid g = goalId' then undoGoal g else g) (goals state),
                         dailyProgress := undoProgress (today clk) goalId' (dailyProgress state)\<rparr>
              else state\<lparr>goals := map (\<lambda>g. if gid g = goalId'
                                             then completeGoal (dailyProgress state) clk goalId' g
                                             else g) (goals state),
                         dailyProgress :=
                           (case existingProgress of
                              Some p \<Rightarrow> completeProgress (today clk) goalId' (dailyProgress state)
                            | None \<Rightarrow> dailyProgress state @
                                [\<lparr>date = today clk,
                                  day_goals = [\<lparr>goalId = goalId', completed = True\<rparr>],
                                  tasks = []\<rparr>])\<rparr>))"

text \<open>
  \<^verbatim>\<open>toggleGoalCompletion\<close> of the \<^verbatim>\<open>GoalTracker\<close> component. The component reads the day
  twice: \<^verbatim>\<open>todayProgress\<close>, on which the branch is decided, is the entry found when the
  component last rendered, for the day of that rendering (\<open>renderDay\<close>), or an entry
  without records; the ledger is updated under the \<^verbatim>\<open>today\<close> read again at the call. Every
  change of the state renders the component anew, so the goals and the ledger of the last
  rendering are those of the state; the day is not, when the page stays open over a change
  of date.
\<close>

definition todayProgress :: "string \<Rightarrow> DailyProgress list \<Rightarrow> DailyProgress" where
  "todayProgress today' dp =
     (case find (\<lambda>p. date p = today') dp of
        Some p \<Rightarrow> p
      | None \<Rightarrow> \<lparr>date = today', day_goals = []\<rparr>)"

definition toggleGoalCompletion_GoalTracker ::
  "string \<Rightarrow> Clock \<Rightarrow> string \<Rightarrow> ('st, DailyProgress, 'z) GoalState_scheme
     \<Rightarrow> ('st, DailyProgress, 'z) GoalState_scheme" where
  "toggleGoalCompletion_GoalTracker renderDay clk goalId' state =
     (case find (\<lambda>g. gid g = goalId') (goals state) of
        None \<Rightarrow> state
      | Some goal \<Rightarrow>
          (let isCompletedToday =
                 completedIn (day_goals (todayProgress renderDay (dailyProgress state))) goalId'
           in if isCompletedToday
              then state\<lparr>goals := map (\<lambda>g. if gid g = goalId' then undoGoal g else g) (goals state),
                         dailyProgress := undoProgress (today clk) goalId' (dailyProgress state)\<rparr>
              else state\<lparr>goals := map (\<lambda>g. if gid g = goalId'
                                             then completeGoal (dailyProgress state) clk goalId' g
                                             else g) (goals state),
                         dailyProgress :=
                           (let updatedProgress =
                                  completeProgress (today clk) goalId' (dailyProgress state)
                            in case find (\<lambda>p. date p = today clk) (dailyProgress state) of
                                 None \<Rightarrow> updatedProgress @
                                   [\<lparr>date = today clk,
                                     day_goals = [\<lparr>goalId = goalId', completed = True\<rparr>]\<rparr>]
                               | Some p \<Rightarrow> updatedProgress)\<rparr>))"

text \<open>
  What one call makes of the goal list and of the ledger, written once for both variants:
  \<open>branchDay\<close> is the day whose ledger entry decides the branch (today's in the store, the
  day of the last rendering in the component), \<open>fresh\<close> the entry pushed when today has none.
\<close>

definition goalsAfter ::
  "string \<Rightarrow> Clock \<Rightarrow> string \<Rightarrow> ('a DailyProgress_scheme) list \<Rightarrow> ('st, 'z) Goal_scheme list
     \<Rightarrow> ('st, 'z) Goal_scheme list" where
  "goalsAfter branchDay clk goalId' dp gs =
     map (\<lambda>g. if gid g = goalId'
              then (if isCompletedOn dp branchDay goalId' then undoGoal g
                    else completeGoal dp clk goalId' g)
              else g) gs"

definition ledgerAfter ::
  "string \<Rightarrow> 'a DailyProgress_scheme \<Rightarrow> Clock \<Rightarrow> string \<Rightarrow> ('a DailyProgress_scheme) list
     \<Rightarrow> ('a DailyProgress_scheme) list" where
  "ledgerAfter branchDay fresh clk goalId' dp =
     (if isCompletedOn dp branchDay goalId' then undoProgress (today clk) goalId' dp
      else if find (\<lambda>p. date p = today clk) dp = None then dp @ [fresh]
      else completeProgress (today clk) goalId' dp)"

section \<open>The other goal operations\<close>

text \<open>
  \<^verbatim>\<open>deleteGoal\<close> and \<^verbatim>\<open>updateGoalStatus\<close> have the same body in the store and in the component:
  a \<^verbatim>\<open>filter\<close>, respectively a \<^verbatim>\<open>map\<close>, over the goal list, and nothing else.
\<close>

definition deleteGoal ::
  "string \<Rightarrow> ('st, 'day, 'z) GoalState_scheme \<Rightarrow> ('st, 'day, 'z) GoalState_scheme" where
  "deleteGoal goalId' state = state\<lparr>goals := filter (\<lambda>goal. gid goal \<noteq> goalId') (goals state)\<rparr>"

definition updateGoalStatus ::
  "string \<Rightarrow> 'st \<Rightarrow> ('st, 'day, 'z) GoalState_scheme \<Rightarrow> ('st, 'day, 'z) GoalState_scheme" where
  "updateGoalStatus goalId' status' state =
     state\<lparr>goals := map (\<lambda>goal. if gid goal = goalId' then goal\<lparr>status := status'\<rparr> else goal)
                       (goals state)\<rparr>"

section \<open>Aggregates of the component\<close>

text \<open>
  The streak leaders of the statistics tab:
  \<^verbatim>\<open>goals.filter(g => g.status === 'active').sort((a, b) => b.streak - a.streak).slice(0, 5)\<close>.
  \<^verbatim>\<open>Array.prototype.sort\<close> is stable, as is \<^const>\<open>sort_key\<close>.
\<close>

definition streakLeaders :: "(GoalStatus, 'z) Goal_scheme list \<Rightarrow> (GoalStatus, 'z) Goal_scheme list" where
  "streakLeaders gs = take 5 (sort_key (\<lambda>g. - streak g) (filter (\<lambda>g. status g = Active) gs))"

text \<open>
  The numbers \<^verbatim>\<open>todayStats.percentage\<close> can be: a finite double, an infinity or \<^verbatim>\<open>NaN\<close>.
  A finite double is the rational it denotes (the sign of zero is not kept).
\<close>

datatype JSNumber = Finite rat | PosInfinity | NegInfinity | NaN

text \<open>
  Rounding to the nearest double (binary64, ties to even). \<open>binade x\<close> is the exponent
  \<open>e\<close> with \<open>2 ^ e \<le> x < 2 ^ (e + 1)\<close> for a positive \<open>x\<close>, found from the bit lengths of
  numerator and denominator. Doubles of that binade are the multiples of \<open>2 ^ (e - 52)\<close>,
  below the normal range those of \<open>2 ^ (- 1074)\<close>; a magnitude that rounds to \<open>2 ^ 1024\<close>
  overflows.
\<close>

definition binade :: "rat \<Rightarrow> int" where
  "binade x =
     (let (a, b) = quotient_of x;
          e = bitlen a - bitlen b
      in if power_int 2 e \<le> x then e else e - 1)"

definition roundHalfEven :: "rat \<Rightarrow> int" where
  "roundHalfEven m =
     (let f = \<lfloor>m\<rfloor>; r = m - of_int f
      in if r < 1 / 2 then f
         else if 1 / 2 < r then f + 1
         else if even f then f else f + 1)"

definition toDoubleMagnitude :: "rat \<Rightarrow> rat" where
  "toDoubleMagnitude x =
     (let ulp = power_int 2 (max (binade x) (- 1022) - 52)
      in of_int (roundHalfEven (x / ulp)) * ulp)"

definition toDouble :: "rat \<Rightarrow> JSNumber" where
  "toDouble x =
     (if x = 0 then Finite 0
      else if 0 < x
        then (let y = toDoubleMagnitude x in if power_int 2 1024 \<le> y then PosInfinity else Finite y)
        else (let y = toDoubleMagnitude (- x)
              in if power_int 2 1024 \<le> y then NegInfinity else Finite (- y)))"

text \<open>\<^verbatim>\<open>a / b\<close> for two array lengths (integers below \<open>2 ^ 32\<close>, exact as doubles).\<close>

definition js_div :: "nat \<Rightarrow> nat \<Rightarrow> JSNumber" where
  "js_div a b =
     (if b = 0 then (if a = 0 then NaN else PosInfinity)
      else toDouble (of_nat a / of_nat b))"

text \<open>
  \<^verbatim>\<open>x * 100\<close>, \<^verbatim>\<open>Math.round(x)\<close> (the nearest integer, halves go up, taken of the double as
  it is) and \<^verbatim>\<open>x || 0\<close>.
\<close>

fun js_times100 :: "JSNumber \<Rightarrow> JSNumber" where
  "js_times100 (Finite x) = toDouble (x * 100)"
| "js_times100 PosInfinity = PosInfinity"
| "js_times100 NegInfinity = NegInfinity"
| "js_times100 NaN = NaN"

fun Math_round :: "JSNumber \<Rightarrow> JSNumber" where
  "Math_round (Finite x) = Finite (of_int \<lfloor>x + 1 / 2\<rfloor>)"
| "Math_round PosInfinity = PosInfinity"
| "Math_round NegInfinity = NegInfinity"
| "Math_round NaN = NaN"

fun or_zero :: "JSNumber \<Rightarrow> JSNumber" where
  "or_zero (Finite x) = Finite x"
| "or_zero PosInfinity = PosInfinity"
| "or_zero NegInfinity = NegInfinity"
| "or_zero NaN = Finite 0"

text \<open>
  \<^verbatim>\<open>todayStats\<close>; its field \<^verbatim>\<open>completed\<close> is named \<open>completedToday\<close>. It reads the goal list
  and \<^verbatim>\<open>todayProgress\<close>, both of the rendering, whose day is \<open>today'\<close>.
\<close>

record TodayStats =
  total_count :: nat
  completedToday :: nat
  percentage :: JSNumber

definition todayStats :: "string \<Rightarrow> (GoalStatus, 'z) Goal_scheme list \<Rightarrow> DailyProgress list \<Rightarrow> TodayStats" where
  "todayStats today' gs dp =
     \<lparr>total_count = length (filter (\<lambda>g. status g = Active) gs),
      completedToday = length (filter (\<lambda>g. completed g) (day_goals (todayProgress today' dp))),
      percentage =
        or_zero (Math_round (js_times100
          (js_div (length (filter (\<lambda>g. completed g) (day_goals (todayProgress today' dp))))
                  (length (filter (\<lambda>g. status g = Active) gs)))))\<rparr>"

section \<open>Loading the persisted state\<close>










text \<open>
  \<^verbatim>\<open>{ ...goal }\<close>: the own properties of an object, the elements of an array and the
  characters of a string under their indices, nothing for the other values.
\<close>

function decimal :: "nat \<Rightarrow> string" where
  "decimal n =
     (if n < 10 then [char_of (48 + n)]
      else decimal (n div 10) @ [char_of (48 + n mod 10)])"
  by pat_completeness auto
termination
  by (relation "measure id") auto








section \<open>Runs of calls\<close>

text \<open>
  A sequence of \<^verbatim>\<open>toggleGoalCompletion\<close> calls, each with the clock readings of its moment and
  the goal id it names, applied from left to right; in the component each call also has the
  day of the rendering it was made from.
\<close>

definition toggles ::
  "(Clock \<times> string) list \<Rightarrow> ('st, StoreDailyProgress, 'z) GoalState_scheme
     \<Rightarrow> ('st, StoreDailyProgress, 'z) GoalState_scheme" where
  "toggles calls state = foldl (\<lambda>s (clk, goalId'). toggleGoalCompletion clk goalId' s) state calls"

definition toggles_GoalTracker ::
  "(string \<times> Clock \<times> string) list \<Rightarrow> ('st, DailyProgress, 'z) GoalState_scheme
     \<Rightarrow> ('st, DailyProgress, 'z) GoalState_scheme" where
  "toggles_GoalTracker calls state =
     foldl (\<lambda>s (renderDay, clk, goalId'). toggleGoalCompletion_GoalTracker renderDay clk goalId' s)
       state calls"

section \<open>Example data\<close>

text \<open>
  A goal with the counters of a newly added one (\<^verbatim>\<open>handleAddGoal\<close>: count, streak and best
  streak 0, never completed), three clock readings (1, 2 and 4 March, each with the day
  before it), and a state of each variant holding that goal and an empty ledger.
\<close>

definition newGoal :: "string \<Rightarrow> 'st \<Rightarrow> 'st Goal" where
  "newGoal i st =
     \<lparr>gid = i, title = ''Read'', description = [], category = Personal, frequency = Daily,
      status = st, targetCount = 1, currentCount = 0, streak = 0, bestStreak = 0,
      color = ''#FFD6A5'', icon = ''*'', createdAt = 0, lastCompleted = None, history = []\<rparr>"

definition day1 :: Clock where
  "day1 = \<lparr>today = ''2024-03-01'', yesterdayStr = ''2024-02-29'', now = 1\<rparr>"

definition day2 :: Clock where
  "day2 = \<lparr>today = ''2024-03-02'', yesterdayStr = ''2024-03-01'', now = 2\<rparr>"

definition day4 :: Clock where
  "day4 = \<lparr>today = ''2024-03-04'', yesterdayStr = ''2024-03-03'', now = 4\<rparr>"

definition freshStore :: "(StoreGoalStatus, StoreDailyProgress) GoalState" where
  "freshStore = \<lparr>goals = [newGoal ''g1'' SActive], dailyProgress = []\<rparr>"

definition freshTracker :: "(GoalStatus, DailyProgress) GoalState" where
  "freshTracker = \<lparr>goals = [newGoal ''g1'' Active], dailyProgress = []\<rparr>"

text \<open>
  The goal completed on 1 March (in the component: from a rendering of that day) and then
  paused; and states whose goal is completed on 1 March while its count is 0 (as after
  \<^verbatim>\<open>updateGoal(id, {currentCount: 0})\<close>).
\<close>

definition pausedTracker :: "(GoalStatus, DailyProgress) GoalState" where
  "pausedTracker =
     updateGoalStatus ''g1'' Paused (toggleGoalCompletion_GoalTracker ''2024-03-01'' day1 ''g1'' freshTracker)"

definition doneTracker :: "(GoalStatus, DailyProgress) GoalState" where
  "doneTracker = toggleGoalCompletion_GoalTracker ''2024-03-01'' day1 ''g1'' freshTracker"

definition doneStore :: "(StoreGoalStatus, StoreDailyProgress) GoalState" where
  "doneStore = toggleGoalCompletion day1 ''g1'' freshStore"



text \<open>The same states with a second goal added in front, as \<^verbatim>\<open>addGoal\<close> does.\<close>

definition twoGoalStore :: "(StoreGoalStatus, StoreDailyProgress) GoalState" where
  "twoGoalStore = doneStore\<lparr>goals := newGoal ''g2'' SActive # goals doneStore\<rparr>"

definition twoGoalTracker :: "(GoalStatus, DailyProgress) GoalState" where
  "twoGoalTracker = doneTracker\<lparr>goals := newGoal ''g2'' Active # goals doneTracker\<rparr>"

text \<open>The new goal completed on 1 and on 2 March.\<close>

definition twoDayStore :: "(StoreGoalStatus, StoreDailyProgress) GoalState" where
  "twoDayStore = toggles [(day1, ''g1''), (day2, ''g1'')] freshStore"

definition twoDayTracker :: "(GoalStatus, DailyProgress) GoalState" where
  "twoDayTracker = toggles_GoalTracker
       [(''2024-03-01'', day1, ''g1''), (''2024-03-02'', day2, ''g1'')] freshTracker"

text \<open>
  The readings of a browser in New York on the day its clocks go back, 3 November 2024, at
  10:00 (15:00 UTC) and at 19:30 (00:30 UTC of 4 November). The code moves the local date
  back by one day and prints the result in UTC: 19:30 of 2 November is still daylight time,
  so the evening reading of "yesterday" is 23:30 UTC of 2 November, two dates before "today".
\<close>

definition newYorkMorning :: Clock where
  "newYorkMorning = \<lparr>today = ''2024-11-03'', yesterdayStr = ''2024-11-02'', now = 1730646000000\<rparr>"

definition newYorkEvening :: Clock where
  "newYorkEvening = \<lparr>today = ''2024-11-04'', yesterdayStr = ''2024-11-02'', now = 1730680200000\<rparr>"

text \<open>Forty active goals, the first twenty-three of them completed on 1 March.\<close>

definition fortyGoals :: "GoalStatus Goal list" where
  "fortyGoals = map (\<lambda>i. newGoal (decimal i) Active) [0..<40]"

definition fortyLedger :: "DailyProgress list" where
  "fortyLedger =
     [\<lparr>date = ''2024-03-01'',
       day_goals = map (\<lambda>i. \<lparr>goalId = decimal i, completed = True\<rparr>) [0..<23] @
                   map (\<lambda>i. \<lparr>goalId = decimal i, completed = False\<rparr>) [23..<40]\<rparr>]"

section \<open>Basic facts\<close>

text \<open>Both variants compute the goal list and the ledger described above.\<close>

lemma find_None_map_id:
  "find (\<lambda>g. gid g = k) gs = None \<Longrightarrow> map (\<lambda>g. if gid g = k then f g else g) gs = gs"
  by (induction gs) (auto split: if_splits)

lemma isCompletedToday_store:
  "(case find (\<lambda>p. date p = t) dp of None \<Rightarrow> False | Some p \<Rightarrow> completedIn (day_goals p) k)
     = isCompletedOn dp t k"
  by (simp add: isCompletedOn_def)

lemma isCompletedToday_GoalTracker:
  "completedIn (day_goals (todayProgress t dp)) k = isCompletedOn dp t k"
  by (simp add: todayProgress_def isCompletedOn_def completedIn_def split: option.splits)

lemma goals_toggle:
  "goals (toggleGoalCompletion clk k s) = goalsAfter (today clk) clk k (dailyProgress s) (goals s)"
  by (cases "find (\<lambda>g. gid g = k) (goals s)")
     (simp_all add: toggleGoalCompletion_def goalsAfter_def find_None_map_id
        isCompletedToday_store Let_def)

lemma goals_toggle_GoalTracker:
  "goals (toggleGoalCompletion_GoalTracker r clk k s) = goalsAfter r clk k (dailyProgress s) (goals s)"
  by (cases "find (\<lambda>g. gid g = k) (goals s)")
     (simp_all add: toggleGoalCompletion_GoalTracker_def goalsAfter_def find_None_map_id
        isCompletedToday_GoalTracker Let_def)

lemma completeProgress_no_today:
  "find (\<lambda>p. date p = t) dp = None \<Longrightarrow> completeProgress t k dp = dp"
  by (induction dp) (auto simp: completeProgress_def split: if_splits)

lemma ledger_toggle:
  "dailyProgress (toggleGoalCompletion clk k s) =
     (if find (\<lambda>g. gid g = k) (goals s) = None then dailyProgress s
      else ledgerAfter (today clk)
             \<lparr>date = today clk, day_goals = [\<lparr>goalId = k, completed = True\<rparr>], tasks = []\<rparr>
             clk k (dailyProgress s))"
  by (cases "find (\<lambda>g. gid g = k) (goals s)")
     (auto simp add: toggleGoalCompletion_def ledgerAfter_def isCompletedToday_store Let_def
        split: option.splits)

lemma ledger_toggle_GoalTracker:
  "dailyProgress (toggleGoalCompletion_GoalTracker r clk k s) =
     (if find (\<lambda>g. gid g = k) (goals s) = None then dailyProgress s
      else ledgerAfter r \<lparr>date = today clk, day_goals = [\<lparr>goalId = k, completed = True\<rparr>]\<rparr>
             clk k (dailyProgress s))"
  by (cases "find (\<lambda>g. gid g = k) (goals s)")
     (auto simp add: toggleGoalCompletion_GoalTracker_def ledgerAfter_def
        isCompletedToday_GoalTracker completeProgress_no_today Let_def split: option.splits)

lemma completedIn_setCompleted:
  "completedIn (setCompleted k b rs) k = (b \<and> find (\<lambda>r. goalId r = k) rs \<noteq> None)"
  by (induction rs) (auto simp: setCompleted_def completedIn_def)

lemma completedIn_setCompleted_other:
  "k' \<noteq> k \<Longrightarrow> completedIn (setCompleted k b rs) k' = completedIn rs k'"
  by (induction rs) (auto simp: setCompleted_def completedIn_def)

lemma completedIn_append_new:
  "find (\<lambda>r. goalId r = k) rs = None \<Longrightarrow>
   completedIn (rs @ [\<lparr>goalId = k, completed = True\<rparr>]) k"
  by (induction rs) (auto simp: completedIn_def split: if_splits)

lemma completedIn_append_other:
  "k' \<noteq> k \<Longrightarrow> completedIn (rs @ [\<lparr>goalId = k, completed = b\<rparr>]) k' = completedIn rs k'"
  by (induction rs) (auto simp: completedIn_def)

lemma isCompletedOn_map:
  "(\<And>p. date (f p) = date p) \<Longrightarrow>
   isCompletedOn (map f dp) d k =
     (case find (\<lambda>p. date p = d) dp of None \<Rightarrow> False | Some p \<Rightarrow> completedIn (day_goals (f p)) k)"
  by (induction dp) (auto simp: isCompletedOn_def)

lemma isCompletedOn_undoProgress_today: "isCompletedOn (undoProgress t k dp) t k = False"
  unfolding undoProgress_def
  by (subst isCompletedOn_map)
     (auto simp: completedIn_setCompleted split: option.splits dest: find_Some_iff[THEN iffD1])

lemma isCompletedOn_undoProgress_other_day:
  "d \<noteq> t \<Longrightarrow> isCompletedOn (undoProgress t k dp) d k' = isCompletedOn dp d k'"
  unfolding undoProgress_def
  by (subst isCompletedOn_map)
     (auto simp: isCompletedOn_def split: option.splits dest: find_Some_iff[THEN iffD1])

lemma isCompletedOn_undoProgress_other_goal:
  "k' \<noteq> k \<Longrightarrow> isCompletedOn (undoProgress t k dp) d k' = isCompletedOn dp d k'"
  unfolding undoProgress_def
  by (subst isCompletedOn_map)
     (auto simp: isCompletedOn_def completedIn_setCompleted_other split: option.splits)

lemma isCompletedOn_completeProgress_today:
  "find (\<lambda>p. date p = t) dp \<noteq> None \<Longrightarrow> isCompletedOn (completeProgress t k dp) t k"
  unfolding completeProgress_def
  by (subst isCompletedOn_map)
     (auto simp: completedIn_setCompleted completedIn_append_new split: option.splits
           dest: find_Some_iff[THEN iffD1])

lemma isCompletedOn_completeProgress_other_day:
  "d \<noteq> t \<Longrightarrow> isCompletedOn (completeProgress t k dp) d k' = isCompletedOn dp d k'"
  unfolding completeProgress_def
  by (subst isCompletedOn_map)
     (auto simp: isCompletedOn_def split: option.splits dest: find_Some_iff[THEN iffD1])

lemma isCompletedOn_completeProgress_other_goal:
  "k' \<noteq> k \<Longrightarrow> isCompletedOn (completeProgress t k dp) d k' = isCompletedOn dp d k'"
  unfolding completeProgress_def
  by (subst isCompletedOn_map)
     (auto simp: isCompletedOn_def completedIn_setCompleted_other completedIn_append_other
           split: option.splits)

lemma isCompletedOn_append_fresh_today:
  "find (\<lambda>p. date p = t) dp = None \<Longrightarrow> date fresh = t \<Longrightarrow>
   day_goals fresh = [\<lparr>goalId = k, completed = True\<rparr>] \<Longrightarrow> isCompletedOn (dp @ [fresh]) t k"
  by (induction dp) (auto simp: isCompletedOn_def completedIn_def split: if_splits)

lemma isCompletedOn_append_fresh_other_day:
  "d \<noteq> date fresh \<Longrightarrow> isCompletedOn (dp @ [fresh]) d k' = isCompletedOn dp d k'"
  by (induction dp) (auto simp: isCompletedOn_def)

lemma isCompletedOn_append_fresh_other_goal:
  "k' \<noteq> k \<Longrightarrow> day_goals fresh = [\<lparr>goalId = k, completed = True\<rparr>] \<Longrightarrow>
   isCompletedOn (dp @ [fresh]) d k' = isCompletedOn dp d k'"
  by (induction dp) (auto simp: isCompletedOn_def completedIn_def)

lemma ledgerAfter_today:
  "date fresh = today clk \<Longrightarrow> day_goals fresh = [\<lparr>goalId = k, completed = True\<rparr>] \<Longrightarrow>
   isCompletedOn (ledgerAfter r fresh clk k dp) (today clk) k = (\<not> isCompletedOn dp r k)"
  by (simp add: ledgerAfter_def isCompletedOn_undoProgress_today
        isCompletedOn_completeProgress_today isCompletedOn_append_fresh_today)

lemma ledgerAfter_other_day:
  "date fresh = today clk \<Longrightarrow> d \<noteq> today clk \<Longrightarrow>
   isCompletedOn (ledgerAfter r fresh clk k dp) d k' = isCompletedOn dp d k'"
  by (simp add: ledgerAfter_def isCompletedOn_undoProgress_other_day
        isCompletedOn_completeProgress_other_day isCompletedOn_append_fresh_other_day)

lemma ledgerAfter_other_goal:
  "day_goals fresh = [\<lparr>goalId = k, completed = True\<rparr>] \<Longrightarrow> k' \<noteq> k \<Longrightarrow>
   isCompletedOn (ledgerAfter r fresh clk k dp) d k' = isCompletedOn dp d k'"
  by (simp add: ledgerAfter_def isCompletedOn_undoProgress_other_goal
        isCompletedOn_completeProgress_other_goal isCompletedOn_append_fresh_other_goal)

lemma filter_undoProgress:
  "filter (\<lambda>p. date p \<noteq> t) (undoProgress t k dp) = filter (\<lambda>p. date p \<noteq> t) dp"
  by (induction dp) (auto simp: undoProgress_def)

lemma filter_completeProgress:
  "filter (\<lambda>p. date p \<noteq> t) (completeProgress t k dp) = filter (\<lambda>p. date p \<noteq> t) dp"
  by (induction dp) (auto simp: completeProgress_def split: option.splits)

lemma ledgerAfter_filter:
  "date fresh = today clk \<Longrightarrow>
   filter (\<lambda>p. date p \<noteq> today clk) (ledgerAfter r fresh clk k dp) = filter (\<lambda>p. date p \<noteq> today clk) dp"
  by (simp add: ledgerAfter_def filter_undoProgress filter_completeProgress)

lemma ledgerAfter_length: "length dp \<le> length (ledgerAfter r fresh clk k dp)"
  by (simp add: ledgerAfter_def undoProgress_def completeProgress_def)

lemma ledgerAfter_nth:
  "i < length dp \<Longrightarrow> date (dp ! i) \<noteq> today clk \<Longrightarrow> ledgerAfter r fresh clk k dp ! i = dp ! i"
  by (simp add: ledgerAfter_def undoProgress_def completeProgress_def nth_append)

lemma length_goalsAfter: "length (goalsAfter r clk k dp gs) = length gs"
  by (simp add: goalsAfter_def)

lemma nth_goalsAfter:
  "i < length gs \<Longrightarrow>
   goalsAfter r clk k dp gs ! i =
     (if gid (gs ! i) = k
      then (if isCompletedOn dp r k then undoGoal (gs ! i) else completeGoal dp clk k (gs ! i))
      else gs ! i)"
  by (simp add: goalsAfter_def)

lemma gid_undoGoal: "gid (undoGoal g) = gid g"
  by (simp add: undoGoal_def Let_def)

lemma gid_completeGoal: "gid (completeGoal dp clk k g) = gid g"
  by (simp add: completeGoal_def Let_def)

lemma gid_goalsAfter: "map gid (goalsAfter r clk k dp gs) = map gid gs"
  by (simp add: goalsAfter_def gid_undoGoal gid_completeGoal)

lemma isCompletedOn_ledgerAfter:
  "date fresh = today clk \<Longrightarrow> day_goals fresh = [\<lparr>goalId = k, completed = True\<rparr>] \<Longrightarrow>
   isCompletedOn (ledgerAfter r fresh clk k dp) d k' =
     (if d = today clk \<and> k' = k then \<not> isCompletedOn dp r k else isCompletedOn dp d k')"
  by (cases "d = today clk"; cases "k' = k")
     (simp_all add: ledgerAfter_today ledgerAfter_other_day ledgerAfter_other_goal)

lemma isCompletedOn_toggle:
  "isCompletedOn (dailyProgress (toggleGoalCompletion clk k s)) d k' =
     (if find (\<lambda>g. gid g = k) (goals s) \<noteq> None \<and> d = today clk \<and> k' = k
      then \<not> isCompletedOn (dailyProgress s) d k'
      else isCompletedOn (dailyProgress s) d k')"
  by (simp add: ledger_toggle isCompletedOn_ledgerAfter)

lemma isCompletedOn_toggle_GoalTracker:
  "isCompletedOn (dailyProgress (toggleGoalCompletion_GoalTracker r clk k s)) d k' =
     (if find (\<lambda>g. gid g = k) (goals s) \<noteq> None \<and> d = today clk \<and> k' = k
      then \<not> isCompletedOn (dailyProgress s) r k
      else isCompletedOn (dailyProgress s) d k')"
  by (auto simp add: ledger_toggle_GoalTracker isCompletedOn_ledgerAfter)

lemma find_gid_nth:
  "i < length gs \<Longrightarrow> gid (gs ! i) = k \<Longrightarrow> find (\<lambda>g. gid g = k) gs \<noteq> None"
proof -
  assume "i < length gs" and "gid (gs ! i) = k"
  then have "gs ! i \<in> set gs \<and> gid (gs ! i) = k" by simp
  then show ?thesis unfolding find_None_iff by blast
qed

lemma counters_undoGoal:
  "streak (undoGoal g) = (if streak g > 0 then streak g - 1 else 0)"
  "bestStreak (undoGoal g) = bestStreak g"
  "currentCount (undoGoal g) = max 0 (currentCount g - 1)"
  "lastCompleted (undoGoal g) = (if currentCount g = 1 then None else lastCompleted g)"
  by (simp_all add: undoGoal_def Let_def)

lemma counters_completeGoal:
  "streak (completeGoal dp clk k g) = (if isCompletedOn dp (yesterdayStr clk) k then streak g + 1 else 1)"
  "bestStreak (completeGoal dp clk k g) =
     max (bestStreak g) (if isCompletedOn dp (yesterdayStr clk) k then streak g + 1 else 1)"
  "currentCount (completeGoal dp clk k g) = currentCount g + 1"
  "lastCompleted (completeGoal dp clk k g) = Some (now clk)"
  by (simp_all add: completeGoal_def Let_def)

lemma complete_streak_store:
  assumes "i < length (goals s)" "gid (goals s ! i) = k"
    and "\<not> isCompletedOn (dailyProgress s) (today clk) k"
  shows "streak (goals (toggleGoalCompletion clk k s) ! i) =
           (if isCompletedOn (dailyProgress s) (yesterdayStr clk) k then streak (goals s ! i) + 1 else 1)"
    and "bestStreak (goals (toggleGoalCompletion clk k s) ! i) =
           max (bestStreak (goals s ! i))
             (if isCompletedOn (dailyProgress s) (yesterdayStr clk) k then streak (goals s ! i) + 1 else 1)"
  using assms by (simp_all add: goals_toggle nth_goalsAfter counters_completeGoal)

lemma complete_streak_GoalTracker:
  assumes "i < length (goals s)" "gid (goals s ! i) = k"
    and "\<not> isCompletedOn (dailyProgress s) r k"
  shows "streak (goals (toggleGoalCompletion_GoalTracker r clk k s) ! i) =
           (if isCompletedOn (dailyProgress s) (yesterdayStr clk) k then streak (goals s ! i) + 1 else 1)"
    and "bestStreak (goals (toggleGoalCompletion_GoalTracker r clk k s) ! i) =
           max (bestStreak (goals s ! i))
             (if isCompletedOn (dailyProgress s) (yesterdayStr clk) k then streak (goals s ! i) + 1 else 1)"
  using assms by (simp_all add: goals_toggle_GoalTracker nth_goalsAfter counters_completeGoal)

lemma length_goals_toggle: "length (goals (toggleGoalCompletion clk k s)) = length (goals s)"
  by (simp add: goals_toggle length_goalsAfter)

lemma gid_goals_toggle:
  "i < length (goals s) \<Longrightarrow> gid (goals (toggleGoalCompletion clk k s) ! i) = gid (goals s ! i)"
  by (simp add: goals_toggle nth_goalsAfter gid_undoGoal gid_completeGoal)

lemma length_goals_toggle_GoalTracker:
  "length (goals (toggleGoalCompletion_GoalTracker r clk k s)) = length (goals s)"
  by (simp add: goals_toggle_GoalTracker length_goalsAfter)

lemma gid_goals_toggle_GoalTracker:
  "i < length (goals s) \<Longrightarrow>
   gid (goals (toggleGoalCompletion_GoalTracker r clk k s) ! i) = gid (goals s ! i)"
  by (simp add: goals_toggle_GoalTracker nth_goalsAfter gid_undoGoal gid_completeGoal)

section \<open>Unknown goal ids\<close>

text \<open>
  C8: toggling an id that no goal carries returns the state as it is, goal collection and
  ledger included, in the store and in the component (whatever the day of its last
  rendering). The operation has no failing branch: it is a total function into states.
\<close>

theorem toggle_unknown_id_noop:
  "(k \<notin> gid ` set (goals s) \<longrightarrow> toggleGoalCompletion clk k s = s) \<and>
   (k \<notin> gid ` set (goals t) \<longrightarrow> toggleGoalCompletion_GoalTracker r clk k t = t)"
proof (intro conjI impI)
  assume "k \<notin> gid ` set (goals s)"
  then have "find (\<lambda>g. gid g = k) (goals s) = None"
    by (auto simp: find_None_iff)
  then show "toggleGoalCompletion clk k s = s"
    by (simp add: toggleGoalCompletion_def)
next
  assume "k \<notin> gid ` set (goals t)"
  then have "find (\<lambda>g. gid g = k) (goals t) = None"
    by (auto simp: find_None_iff)
  then show "toggleGoalCompletion_GoalTracker r clk k t = t"
    by (simp add: toggleGoalCompletion_GoalTracker_def)
qed

theorem toggle_unknown_id_noop_witness:
  "''g2'' \<notin> gid ` set (goals freshStore) \<and>
   toggleGoalCompletion day1 ''g2'' freshStore = freshStore \<and>
   ''g2'' \<notin> gid ` set (goals freshTracker) \<and>
   toggleGoalCompletion_GoalTracker ''2024-02-28'' day1 ''g2'' freshTracker = freshTracker"
  using toggle_unknown_id_noop [of "''g2''" freshStore day1 freshTracker "''2024-02-28''"]
  by (simp add: freshStore_def freshTracker_def newGoal_def)

section \<open>Streak arithmetic of a completion\<close>

text \<open>
  With clock readings that follow the calendar, and in the component with each call made
  from a rendering of its own day, a goal with streak 0, best streak 0 and no completion in
  the ledger goes through the three days as intended: the toggle of day D gives streak 1
  and best streak 1, the toggle of day D+1 gives 2 and 2, and the toggle of day D+3, with
  D+2 left out, gives streak 1 and best streak 2.
\<close>

lemma three_days_store:
  assumes i: "i < length (goals s)" "gid (goals s ! i) = k"
    and fresh: "streak (goals s ! i) = 0" "bestStreak (goals s ! i) = 0"
    and none: "\<forall>d. \<not> isCompletedOn (dailyProgress s) d k"
    and days: "yesterdayStr c2 = today c1" "today c2 \<noteq> today c1"
      "today c4 \<noteq> today c1" "today c4 \<noteq> today c2"
      "yesterdayStr c4 \<noteq> today c1" "yesterdayStr c4 \<noteq> today c2"
  defines "s1 \<equiv> toggleGoalCompletion c1 k s"
  defines "s2 \<equiv> toggleGoalCompletion c2 k s1"
  defines "s3 \<equiv> toggleGoalCompletion c4 k s2"
  shows "streak (goals s1 ! i) = 1 \<and> bestStreak (goals s1 ! i) = 1 \<and>
         streak (goals s2 ! i) = 2 \<and> bestStreak (goals s2 ! i) = 2 \<and>
         streak (goals s3 ! i) = 1 \<and> bestStreak (goals s3 ! i) = 2"
proof -
  have f0: "find (\<lambda>g. gid g = k) (goals s) \<noteq> None"
    using i by (rule find_gid_nth)
  have i1: "i < length (goals s1)" "gid (goals s1 ! i) = k"
    using i by (simp_all add: s1_def length_goals_toggle gid_goals_toggle)
  have f1: "find (\<lambda>g. gid g = k) (goals s1) \<noteq> None"
    using i1 by (rule find_gid_nth)
  have i2: "i < length (goals s2)" "gid (goals s2 ! i) = k"
    using i1 by (simp_all add: s2_def length_goals_toggle gid_goals_toggle)
  have l1: "isCompletedOn (dailyProgress s1) d k = (d = today c1)" for d
    using none f0 by (simp add: s1_def isCompletedOn_toggle)
  have l2: "isCompletedOn (dailyProgress s2) d k = (d = today c1 \<or> d = today c2)" for d
    using f1 l1 days by (auto simp add: s2_def isCompletedOn_toggle)
  have d1: "streak (goals s1 ! i) = 1 \<and> bestStreak (goals s1 ! i) = 1"
    using i fresh none by (simp add: s1_def complete_streak_store)
  have d2: "streak (goals s2 ! i) = 2 \<and> bestStreak (goals s2 ! i) = 2"
    using i1 d1 l1 days by (simp add: s2_def complete_streak_store)
  have d3: "streak (goals s3 ! i) = 1 \<and> bestStreak (goals s3 ! i) = 2"
    using i2 d2 l2 days by (simp add: s3_def complete_streak_store)
  show ?thesis using d1 d2 d3 by simp
qed

lemma three_days_GoalTracker:
  assumes i: "i < length (goals s)" "gid (goals s ! i) = k"
    and fresh: "streak (goals s ! i) = 0" "bestStreak (goals s ! i) = 0"
    and none: "\<forall>d. \<not> isCompletedOn (dailyProgress s) d k"
    and days: "yesterdayStr c2 = today c1" "today c2 \<noteq> today c1"
      "today c4 \<noteq> today c1" "today c4 \<noteq> today c2"
      "yesterdayStr c4 \<noteq> today c1" "yesterdayStr c4 \<noteq> today c2"
  defines "s1 \<equiv> toggleGoalCompletion_GoalTracker (today c1) c1 k s"
  defines "s2 \<equiv> toggleGoalCompletion_GoalTracker (today c2) c2 k s1"
  defines "s3 \<equiv> toggleGoalCompletion_GoalTracker (today c4) c4 k s2"
  shows "streak (goals s1 ! i) = 1 \<and> bestStreak (goals s1 ! i) = 1 \<and>
         streak (goals s2 ! i) = 2 \<and> bestStreak (goals s2 ! i) = 2 \<and>
         streak (goals s3 ! i) = 1 \<and> bestStreak (goals s3 ! i) = 2"
proof -
  have f0: "find (\<lambda>g. gid g = k) (goals s) \<noteq> None"
    using i by (rule find_gid_nth)
  have i1: "i < length (goals s1)" "gid (goals s1 ! i) = k"
    using i by (simp_all add: s1_def length_goals_toggle_GoalTracker gid_goals_toggle_GoalTracker)
  have f1: "find (\<lambda>g. gid g = k) (goals s1) \<noteq> None"
    using i1 by (rule find_gid_nth)
  have i2: "i < length (goals s2)" "gid (goals s2 ! i) = k"
    using i1 by (simp_all add: s2_def length_goals_toggle_GoalTracker gid_goals_toggle_GoalTracker)
  have l1: "isCompletedOn (dailyProgress s1) d k = (d = today c1)" for d
    using none f0 by (simp add: s1_def isCompletedOn_toggle_GoalTracker)
  have l2: "isCompletedOn (dailyProgress s2) d k = (d = today c1 \<or> d = today c2)" for d
    using f1 l1 days by (auto simp add: s2_def isCompletedOn_toggle_GoalTracker)
  have d1: "streak (goals s1 ! i) = 1 \<and> bestStreak (goals s1 ! i) = 1"
    using i fresh none by (simp add: s1_def complete_streak_GoalTracker)
  have d2: "streak (goals s2 ! i) = 2 \<and> bestStreak (goals s2 ! i) = 2"
    using i1 d1 l1 days by (simp add: s2_def complete_streak_GoalTracker)
  have d3: "streak (goals s3 ! i) = 1 \<and> bestStreak (goals s3 ! i) = 2"
    using i2 d2 l2 days by (simp add: s3_def complete_streak_GoalTracker)
  show ?thesis using d1 d2 d3 by simp
qed

lemma doneStore_eval:
  "doneStore = \<lparr>goals = [(newGoal ''g1'' SActive)
       \<lparr>currentCount := 1, streak := 1, bestStreak := 1, lastCompleted := Some 1\<rparr>],
     dailyProgress = [\<lparr>date = ''2024-03-01'',
       day_goals = [\<lparr>goalId = ''g1'', completed = True\<rparr>], tasks = []\<rparr>]\<rparr>"
  by (simp add: doneStore_def toggleGoalCompletion_def freshStore_def newGoal_def day1_def
        isCompletedOn_def completeGoal_def)

lemma doneTracker_eval:
  "doneTracker = \<lparr>goals = [(newGoal ''g1'' Active)
       \<lparr>currentCount := 1, streak := 1, bestStreak := 1, lastCompleted := Some 1\<rparr>],
     dailyProgress = [\<lparr>date = ''2024-03-01'',
       day_goals = [\<lparr>goalId = ''g1'', completed = True\<rparr>]\<rparr>]\<rparr>"
  by (simp add: doneTracker_def toggleGoalCompletion_GoalTracker_def freshTracker_def newGoal_def
        day1_def isCompletedOn_def completeGoal_def todayProgress_def completedIn_def
        completeProgress_def)

text \<open>
  C1: a toggle that marks the goal complete sets its streak to the old streak plus one if
  the ledger shows the goal completed the day before, and to 1 otherwise; on a new goal the
  toggle of day D gives streak 1 and the toggle of day D+1 gives streak 2 and best streak 2.
  The code does not always do so.

  In the store, the new goal is toggled in New York at 15:00 UTC of 3 November 2024 and
  again at 00:30 UTC of 4 November. The ledger shows it completed on 3 November, the day
  before the second call's today; the second call looks for 2 November, finds nothing and
  sets the streak to 1 again.

  In the component, the goal was completed on 1 March and the page, rendered that day,
  stays open; the toggle of 2 March finds the goal completed in the entry of the rendering,
  takes the undo branch and leaves the streak at 0 and the ledger unchanged.
\<close>

theorem chained_completion_lost:
  "today newYorkMorning = ''2024-11-03'' \<and> today newYorkEvening = ''2024-11-04'' \<and>
   streak (goals (toggleGoalCompletion newYorkMorning ''g1'' freshStore) ! 0) = 1 \<and>
   isCompletedOn (dailyProgress (toggleGoalCompletion newYorkMorning ''g1'' freshStore))
     ''2024-11-03'' ''g1'' \<and>
   \<not> isCompletedOn (dailyProgress (toggleGoalCompletion newYorkMorning ''g1'' freshStore))
     ''2024-11-04'' ''g1'' \<and>
   streak (goals (toggleGoalCompletion newYorkEvening ''g1''
     (toggleGoalCompletion newYorkMorning ''g1'' freshStore)) ! 0) = 1 \<and>
   bestStreak (goals (toggleGoalCompletion newYorkEvening ''g1''
     (toggleGoalCompletion newYorkMorning ''g1'' freshStore)) ! 0) = 1 \<and>
   streak (goals doneTracker ! 0) = 1 \<and>
   isCompletedOn (dailyProgress doneTracker) (yesterdayStr day2) ''g1'' \<and>
   \<not> isCompletedOn (dailyProgress doneTracker) (today day2) ''g1'' \<and>
   streak (goals (toggleGoalCompletion_GoalTracker ''2024-03-01'' day2 ''g1'' doneTracker) ! 0) = 0 \<and>
   dailyProgress (toggleGoalCompletion_GoalTracker ''2024-03-01'' day2 ''g1'' doneTracker)
     = dailyProgress doneTracker"
proof -
  define s1 where "s1 = toggleGoalCompletion newYorkMorning ''g1'' freshStore"
  have s1: "s1 = \<lparr>goals = [(newGoal ''g1'' SActive)
       \<lparr>currentCount := 1, streak := 1, bestStreak := 1, lastCompleted := Some 1730646000000\<rparr>],
     dailyProgress = [\<lparr>date = ''2024-11-03'',
       day_goals = [\<lparr>goalId = ''g1'', completed = True\<rparr>], tasks = []\<rparr>]\<rparr>"
    by (simp add: s1_def toggleGoalCompletion_def freshStore_def newGoal_def newYorkMorning_def
          isCompletedOn_def completeGoal_def)
  have a: "streak (goals s1 ! 0) = 1 \<and> isCompletedOn (dailyProgress s1) ''2024-11-03'' ''g1'' \<and>
      \<not> isCompletedOn (dailyProgress s1) ''2024-11-04'' ''g1''"
    by (simp add: s1 newGoal_def isCompletedOn_def completedIn_def)
  have b: "streak (goals (toggleGoalCompletion newYorkEvening ''g1'' s1) ! 0) = 1 \<and>
      bestStreak (goals (toggleGoalCompletion newYorkEvening ''g1'' s1) ! 0) = 1"
    by (simp add: s1 goals_toggle goalsAfter_def newGoal_def newYorkEvening_def isCompletedOn_def
          completeGoal_def)
  have c: "streak (goals doneTracker ! 0) = 1 \<and>
      isCompletedOn (dailyProgress doneTracker) (yesterdayStr day2) ''g1'' \<and>
      \<not> isCompletedOn (dailyProgress doneTracker) (today day2) ''g1''"
    by (simp add: doneTracker_eval newGoal_def isCompletedOn_def completedIn_def day2_def)
  have d: "streak (goals (toggleGoalCompletion_GoalTracker ''2024-03-01'' day2 ''g1'' doneTracker) ! 0) = 0"
    by (simp add: doneTracker_eval goals_toggle_GoalTracker goalsAfter_def newGoal_def
          isCompletedOn_def completedIn_def undoGoal_def)
  have e: "dailyProgress (toggleGoalCompletion_GoalTracker ''2024-03-01'' day2 ''g1'' doneTracker)
     = dailyProgress doneTracker"
    by (simp add: doneTracker_eval ledger_toggle_GoalTracker ledgerAfter_def newGoal_def
          isCompletedOn_def completedIn_def undoProgress_def day2_def)
  show ?thesis
    using a b c d e unfolding s1_def by (simp add: newYorkMorning_def newYorkEvening_def)
qed

section \<open>Invariants of the counters\<close>

lemma toggles_Nil: "toggles [] s = s"
  by (simp add: toggles_def)

lemma toggles_Cons: "toggles ((clk, k) # calls) s = toggles calls (toggleGoalCompletion clk k s)"
  by (simp add: toggles_def)

lemma toggles_snoc: "toggles (calls @ [(clk, k)]) s = toggleGoalCompletion clk k (toggles calls s)"
  by (simp add: toggles_def)

lemma toggles_GoalTracker_Nil: "toggles_GoalTracker [] s = s"
  by (simp add: toggles_GoalTracker_def)

lemma toggles_GoalTracker_Cons:
  "toggles_GoalTracker ((r, clk, k) # calls) s =
     toggles_GoalTracker calls (toggleGoalCompletion_GoalTracker r clk k s)"
  by (simp add: toggles_GoalTracker_def)

lemma toggles_GoalTracker_snoc:
  "toggles_GoalTracker (calls @ [(r, clk, k)]) s =
     toggleGoalCompletion_GoalTracker r clk k (toggles_GoalTracker calls s)"
  by (simp add: toggles_GoalTracker_def)

text \<open>A property of one goal that both branches keep is kept by every run of calls.\<close>

lemma goalsAfter_keeps:
  assumes "i < length gs" "P (gs ! i)"
    and "\<And>g. P g \<Longrightarrow> P (undoGoal g)"
    and "\<And>g. P g \<Longrightarrow> P (completeGoal dp clk k g)"
  shows "P (goalsAfter r clk k dp gs ! i)"
  using assms by (simp add: nth_goalsAfter)

lemma toggles_keep:
  assumes "\<And>g. P g \<Longrightarrow> P (undoGoal g)"
    and "\<And>g dp clk k. P g \<Longrightarrow> P (completeGoal (dp :: StoreDailyProgress list) clk k g)"
  shows "i < length (goals s) \<Longrightarrow> P (goals s ! i) \<Longrightarrow>
         i < length (goals (toggles calls s)) \<and> P (goals (toggles calls s) ! i)"
proof (induction calls arbitrary: s)
  case Nil
  then show ?case by (simp add: toggles_Nil)
next
  case (Cons c calls)
  obtain clk k where c: "c = (clk, k)" by (cases c)
  have "i < length (goals (toggleGoalCompletion clk k s))"
    using Cons.prems by (simp add: length_goals_toggle)
  moreover have "P (goals (toggleGoalCompletion clk k s) ! i)"
    unfolding goals_toggle
    using Cons.prems assms by (auto intro!: goalsAfter_keeps [where P = P])
  ultimately show ?case
    unfolding c toggles_Cons by (rule Cons.IH)
qed

lemma toggles_GoalTracker_keep:
  assumes "\<And>g. P g \<Longrightarrow> P (undoGoal g)"
    and "\<And>g dp clk k. P g \<Longrightarrow> P (completeGoal (dp :: DailyProgress list) clk k g)"
  shows "i < length (goals s) \<Longrightarrow> P (goals s ! i) \<Longrightarrow>
         i < length (goals (toggles_GoalTracker calls s)) \<and>
         P (goals (toggles_GoalTracker calls s) ! i)"
proof (induction calls arbitrary: s)
  case Nil
  then show ?case by (simp add: toggles_GoalTracker_Nil)
next
  case (Cons c calls)
  obtain r clk k where c: "c = (r, clk, k)" by (cases c) auto
  have "i < length (goals (toggleGoalCompletion_GoalTracker r clk k s))"
    using Cons.prems by (simp add: length_goals_toggle_GoalTracker)
  moreover have "P (goals (toggleGoalCompletion_GoalTracker r clk k s) ! i)"
    unfolding goals_toggle_GoalTracker
    using Cons.prems assms by (auto intro!: goalsAfter_keeps [where P = P])
  ultimately show ?case
    unfolding c toggles_GoalTracker_Cons by (rule Cons.IH)
qed

lemma streak_nonneg_undoGoal: "0 \<le> streak g \<Longrightarrow> 0 \<le> streak (undoGoal g)"
  by (simp add: counters_undoGoal)

lemma streak_nonneg_completeGoal: "0 \<le> streak g \<Longrightarrow> 0 \<le> streak (completeGoal dp clk k g)"
  by (simp add: counters_completeGoal)

text \<open>
  C7: from a goal as created, with streak 0, the streak of that goal is never negative:
  after every prefix of every run of toggle calls, whatever ids and days the calls name
  and, in the component, whatever renderings they are made from.
\<close>

theorem streak_never_negative:
  "(i < length (goals s) \<and> streak (goals s ! i) = 0 \<longrightarrow>
      (\<forall>n. 0 \<le> streak (goals (toggles (take n calls) s) ! i))) \<and>
   (i < length (goals t) \<and> streak (goals t ! i) = 0 \<longrightarrow>
      (\<forall>n. 0 \<le> streak (goals (toggles_GoalTracker (take n calls') t) ! i)))"
proof (intro conjI impI allI)
  fix n
  assume "i < length (goals s) \<and> streak (goals s ! i) = 0"
  then have "i < length (goals s)" and "0 \<le> streak (goals s ! i)" by simp_all
  then show "0 \<le> streak (goals (toggles (take n calls) s) ! i)"
    using toggles_keep [where P = "\<lambda>g. 0 \<le> streak g" and i = i and s = s
        and calls = "take n calls", OF streak_nonneg_undoGoal streak_nonneg_completeGoal]
    by simp
next
  fix n
  assume "i < length (goals t) \<and> streak (goals t ! i) = 0"
  then have "i < length (goals t)" and "0 \<le> streak (goals t ! i)" by simp_all
  then show "0 \<le> streak (goals (toggles_GoalTracker (take n calls') t) ! i)"
    using toggles_GoalTracker_keep [where P = "\<lambda>g. 0 \<le> streak g" and i = i and s = t
        and calls = "take n calls'", OF streak_nonneg_undoGoal streak_nonneg_completeGoal]
    by simp
qed

theorem streak_never_negative_witness:
  "(0::nat) < length (goals freshStore) \<and> streak (goals freshStore ! 0) = 0 \<and>
   0 \<le> streak (goals (toggles (take 2 [(day1, ''g1''), (day1, ''g1''), (day2, ''g1'')])
          freshStore) ! 0) \<and>
   (0::nat) < length (goals freshTracker) \<and> streak (goals freshTracker ! 0) = 0 \<and>
   0 \<le> streak (goals (toggles_GoalTracker
          (take 2 [(''2024-03-01'', day1, ''g1''), (''2024-03-01'', day1, ''g1''),
                   (''2024-03-01'', day2, ''g1'')]) freshTracker) ! 0)"
proof -
  have h: "(0::nat) < length (goals freshStore) \<and> streak (goals freshStore ! 0) = 0 \<and>
           (0::nat) < length (goals freshTracker) \<and> streak (goals freshTracker ! 0) = 0"
    by (simp add: freshStore_def freshTracker_def newGoal_def)
  show ?thesis
    using h streak_never_negative [of 0 freshStore
        "[(day1, ''g1''), (day1, ''g1''), (day2, ''g1'')]" freshTracker
        "[(''2024-03-01'', day1, ''g1''), (''2024-03-01'', day1, ''g1''),
          (''2024-03-01'', day2, ''g1'')]"]
    by blast
qed

lemma best_inv_undoGoal:
  "streak g \<le> bestStreak g \<and> 0 \<le> bestStreak g \<Longrightarrow>
   streak (undoGoal g) \<le> bestStreak (undoGoal g) \<and> 0 \<le> bestStreak (undoGoal g)"
  by (simp add: counters_undoGoal)

lemma best_inv_completeGoal:
  "streak g \<le> bestStreak g \<and> 0 \<le> bestStreak g \<Longrightarrow>
   streak (completeGoal dp clk k g) \<le> bestStreak (completeGoal dp clk k g) \<and>
   0 \<le> bestStreak (completeGoal dp clk k g)"
  by (auto simp add: counters_completeGoal)

lemma best_step:
  assumes "i < length gs" "streak (gs ! i) \<le> bestStreak (gs ! i)" "0 \<le> bestStreak (gs ! i)"
  shows "streak (goalsAfter r clk k dp gs ! i) \<le> bestStreak (goalsAfter r clk k dp gs ! i)"
    and "bestStreak (gs ! i) \<le> bestStreak (goalsAfter r clk k dp gs ! i)"
    and "isCompletedOn dp r k \<Longrightarrow>
         bestStreak (goalsAfter r clk k dp gs ! i) = bestStreak (gs ! i)"
  using assms by (simp_all add: nth_goalsAfter counters_undoGoal counters_completeGoal)

text \<open>
  C4: from a goal as created, with streak 0 and best streak 0, after any run of toggle calls
  and one more call the best streak is at least the streak, and it is at least what it was
  before that call; when that call takes the undo branch (the goal it names is completed
  per the ledger entry of today, in the component of the day of the rendering) the best
  streak is unchanged.
\<close>

theorem bestStreak_bounds_streak_and_grows:
  "(i < length (goals s) \<and> streak (goals s ! i) = 0 \<and> bestStreak (goals s ! i) = 0 \<longrightarrow>
      streak (goals (toggleGoalCompletion clk k (toggles calls s)) ! i)
        \<le> bestStreak (goals (toggleGoalCompletion clk k (toggles calls s)) ! i) \<and>
      bestStreak (goals (toggles calls s) ! i)
        \<le> bestStreak (goals (toggleGoalCompletion clk k (toggles calls s)) ! i) \<and>
      (isCompletedOn (dailyProgress (toggles calls s)) (today clk) k \<longrightarrow>
         bestStreak (goals (toggleGoalCompletion clk k (toggles calls s)) ! i)
           = bestStreak (goals (toggles calls s) ! i))) \<and>
   (i < length (goals t) \<and> streak (goals t ! i) = 0 \<and> bestStreak (goals t ! i) = 0 \<longrightarrow>
      streak (goals (toggleGoalCompletion_GoalTracker r clk k (toggles_GoalTracker calls' t)) ! i)
        \<le> bestStreak (goals (toggleGoalCompletion_GoalTracker r clk k
              (toggles_GoalTracker calls' t)) ! i) \<and>
      bestStreak (goals (toggles_GoalTracker calls' t) ! i)
        \<le> bestStreak (goals (toggleGoalCompletion_GoalTracker r clk k
              (toggles_GoalTracker calls' t)) ! i) \<and>
      (isCompletedOn (dailyProgress (toggles_GoalTracker calls' t)) r k \<longrightarrow>
         bestStreak (goals (toggleGoalCompletion_GoalTracker r clk k
             (toggles_GoalTracker calls' t)) ! i)
           = bestStreak (goals (toggles_GoalTracker calls' t) ! i)))"
proof (intro conjI impI)
  assume a: "i < length (goals s) \<and> streak (goals s ! i) = 0 \<and> bestStreak (goals s ! i) = 0"
  define s1 where "s1 = toggles calls s"
  have inv: "i < length (goals s1) \<and>
             (streak (goals s1 ! i) \<le> bestStreak (goals s1 ! i) \<and> 0 \<le> bestStreak (goals s1 ! i))"
    unfolding s1_def
    using a toggles_keep [where P = "\<lambda>g. streak g \<le> bestStreak g \<and> 0 \<le> bestStreak g"
        and i = i and s = s and calls = calls, OF best_inv_undoGoal best_inv_completeGoal]
    by simp
  show "streak (goals (toggleGoalCompletion clk k (toggles calls s)) ! i)
        \<le> bestStreak (goals (toggleGoalCompletion clk k (toggles calls s)) ! i)"
    using inv best_step(1) [where i = i and gs = "goals s1" and clk = clk and k = k
        and dp = "dailyProgress s1" and r = "today clk"]
    by (simp add: goals_toggle s1_def)
  show "bestStreak (goals (toggles calls s) ! i)
        \<le> bestStreak (goals (toggleGoalCompletion clk k (toggles calls s)) ! i)"
    using inv best_step(2) [where i = i and gs = "goals s1" and clk = clk and k = k
        and dp = "dailyProgress s1" and r = "today clk"]
    by (simp add: goals_toggle s1_def)
  show "bestStreak (goals (toggleGoalCompletion clk k (toggles calls s)) ! i)
           = bestStreak (goals (toggles calls s) ! i)"
    if "isCompletedOn (dailyProgress (toggles calls s)) (today clk) k"
    using that inv best_step(3) [where i = i and gs = "goals s1" and clk = clk and k = k
        and dp = "dailyProgress s1" and r = "today clk"]
    by (simp add: goals_toggle s1_def)
next
  assume a: "i < length (goals t) \<and> streak (goals t ! i) = 0 \<and> bestStreak (goals t ! i) = 0"
  define t1 where "t1 = toggles_GoalTracker calls' t"
  have inv: "i < length (goals t1) \<and>
             (streak (goals t1 ! i) \<le> bestStreak (goals t1 ! i) \<and> 0 \<le> bestStreak (goals t1 ! i))"
    unfolding t1_def
    using a toggles_GoalTracker_keep
        [where P = "\<lambda>g. streak g \<le> bestStreak g \<and> 0 \<le> bestStreak g"
          and i = i and s = t and calls = calls', OF best_inv_undoGoal best_inv_completeGoal]
    by simp
  show "streak (goals (toggleGoalCompletion_GoalTracker r clk k (toggles_GoalTracker calls' t)) ! i)
        \<le> bestStreak (goals (toggleGoalCompletion_GoalTracker r clk k
              (toggles_GoalTracker calls' t)) ! i)"
    using inv best_step(1) [where i = i and gs = "goals t1" and clk = clk and k = k
        and dp = "dailyProgress t1" and r = r]
    by (simp add: goals_toggle_GoalTracker t1_def)
  show "bestStreak (goals (toggles_GoalTracker calls' t) ! i)
        \<le> bestStreak (goals (toggleGoalCompletion_GoalTracker r clk k
              (toggles_GoalTracker calls' t)) ! i)"
    using inv best_step(2) [where i = i and gs = "goals t1" and clk = clk and k = k
        and dp = "dailyProgress t1" and r = r]
    by (simp add: goals_toggle_GoalTracker t1_def)
  show "bestStreak (goals (toggleGoalCompletion_GoalTracker r clk k
             (toggles_GoalTracker calls' t)) ! i)
           = bestStreak (goals (toggles_GoalTracker calls' t) ! i)"
    if "isCompletedOn (dailyProgress (toggles_GoalTracker calls' t)) r k"
    using that inv best_step(3) [where i = i and gs = "goals t1" and clk = clk and k = k
        and dp = "dailyProgress t1" and r = r]
    by (simp add: goals_toggle_GoalTracker t1_def)
qed

theorem bestStreak_bounds_streak_and_grows_witness:
  "(0::nat) < length (goals freshStore) \<and> streak (goals freshStore ! 0) = 0 \<and>
   bestStreak (goals freshStore ! 0) = 0 \<and>
   isCompletedOn (dailyProgress (toggles [(day1, ''g1''), (day2, ''g1'')] freshStore))
     (today day2) ''g1'' \<and>
   streak (goals (toggleGoalCompletion day2 ''g1''
       (toggles [(day1, ''g1''), (day2, ''g1'')] freshStore)) ! 0)
     \<le> bestStreak (goals (toggleGoalCompletion day2 ''g1''
       (toggles [(day1, ''g1''), (day2, ''g1'')] freshStore)) ! 0) \<and>
   bestStreak (goals (toggleGoalCompletion day2 ''g1''
       (toggles [(day1, ''g1''), (day2, ''g1'')] freshStore)) ! 0)
     = bestStreak (goals (toggles [(day1, ''g1''), (day2, ''g1'')] freshStore) ! 0) \<and>
   (0::nat) < length (goals freshTracker) \<and> streak (goals freshTracker ! 0) = 0 \<and>
   bestStreak (goals freshTracker ! 0) = 0 \<and>
   isCompletedOn (dailyProgress (toggles_GoalTracker
       [(''2024-03-01'', day1, ''g1''), (''2024-03-02'', day2, ''g1'')] freshTracker))
     ''2024-03-02'' ''g1'' \<and>
   streak (goals (toggleGoalCompletion_GoalTracker ''2024-03-02'' day2 ''g1''
       (toggles_GoalTracker
         [(''2024-03-01'', day1, ''g1''), (''2024-03-02'', day2, ''g1'')] freshTracker)) ! 0)
     \<le> bestStreak (goals (toggleGoalCompletion_GoalTracker ''2024-03-02'' day2 ''g1''
       (toggles_GoalTracker
         [(''2024-03-01'', day1, ''g1''), (''2024-03-02'', day2, ''g1'')] freshTracker)) ! 0) \<and>
   bestStreak (goals (toggleGoalCompletion_GoalTracker ''2024-03-02'' day2 ''g1''
       (toggles_GoalTracker
         [(''2024-03-01'', day1, ''g1''), (''2024-03-02'', day2, ''g1'')] freshTracker)) ! 0)
     = bestStreak (goals (toggles_GoalTracker
         [(''2024-03-01'', day1, ''g1''), (''2024-03-02'', day2, ''g1'')] freshTracker) ! 0)"
proof -
  have h: "(0::nat) < length (goals freshStore) \<and> streak (goals freshStore ! 0) = 0 \<and>
           bestStreak (goals freshStore ! 0) = 0 \<and>
           (0::nat) < length (goals freshTracker) \<and> streak (goals freshTracker ! 0) = 0 \<and>
           bestStreak (goals freshTracker ! 0) = 0"
    by (simp add: freshStore_def freshTracker_def newGoal_def)
  have f: "find (\<lambda>g. gid g = ''g1'') (goals freshStore) \<noteq> None"
    "find (\<lambda>g. gid g = ''g1'') (goals freshTracker) \<noteq> None"
    by (simp_all add: freshStore_def freshTracker_def newGoal_def)
  have f1: "find (\<lambda>g. gid g = ''g1'') (goals (toggleGoalCompletion day1 ''g1'' freshStore)) \<noteq> None"
    by (rule find_gid_nth [of 0])
       (simp_all add: length_goals_toggle gid_goals_toggle freshStore_def newGoal_def)
  have f2: "find (\<lambda>g. gid g = ''g1'')
      (goals (toggleGoalCompletion_GoalTracker ''2024-03-01'' day1 ''g1'' freshTracker)) \<noteq> None"
    by (rule find_gid_nth [of 0])
       (simp_all add: length_goals_toggle_GoalTracker gid_goals_toggle_GoalTracker
          freshTracker_def newGoal_def)
  have c: "isCompletedOn (dailyProgress (toggles [(day1, ''g1''), (day2, ''g1'')] freshStore))
             (today day2) ''g1''"
    using f f1
    by (simp add: toggles_Cons toggles_Nil isCompletedOn_toggle day1_def day2_def)
       (simp add: freshStore_def isCompletedOn_def)
  have c': "isCompletedOn (dailyProgress (toggles_GoalTracker
             [(''2024-03-01'', day1, ''g1''), (''2024-03-02'', day2, ''g1'')] freshTracker))
             ''2024-03-02'' ''g1''"
    using f f2
    by (simp add: toggles_GoalTracker_Cons toggles_GoalTracker_Nil
          isCompletedOn_toggle_GoalTracker day1_def day2_def)
       (simp add: freshTracker_def isCompletedOn_def)
  show ?thesis
    using h c c' bestStreak_bounds_streak_and_grows [of 0 freshStore day2 "''g1''"
        "[(day1, ''g1''), (day2, ''g1'')]" freshTracker "''2024-03-02''"
        "[(''2024-03-01'', day1, ''g1''), (''2024-03-02'', day2, ''g1'')]"]
    by blast
qed

section \<open>The undo branch\<close>





section \<open>What a toggle leaves alone\<close>

lemma goalsAfter_other:
  "i < length gs \<Longrightarrow> gid (gs ! i) \<noteq> k \<Longrightarrow> goalsAfter r clk k dp gs ! i = gs ! i"
  by (simp add: nth_goalsAfter)

lemma more_toggle: "GoalState.more (toggleGoalCompletion clk k s) = GoalState.more s"
  by (simp add: toggleGoalCompletion_def Let_def split: option.splits)

lemma more_toggle_GoalTracker:
  "GoalState.more (toggleGoalCompletion_GoalTracker r clk k s) = GoalState.more s"
  by (simp add: toggleGoalCompletion_GoalTracker_def Let_def split: option.splits)

lemma ledger_frame_store:
  "filter (\<lambda>p. date p \<noteq> today clk) (dailyProgress (toggleGoalCompletion clk k s))
     = filter (\<lambda>p. date p \<noteq> today clk) (dailyProgress s)"
  "j < length (dailyProgress s) \<Longrightarrow> date (dailyProgress s ! j) \<noteq> today clk \<Longrightarrow>
     dailyProgress (toggleGoalCompletion clk k s) ! j = dailyProgress s ! j"
  by (simp_all add: ledger_toggle ledgerAfter_filter ledgerAfter_nth)

lemma ledger_frame_GoalTracker:
  "filter (\<lambda>p. date p \<noteq> today clk) (dailyProgress (toggleGoalCompletion_GoalTracker r clk k s))
     = filter (\<lambda>p. date p \<noteq> today clk) (dailyProgress s)"
  "j < length (dailyProgress s) \<Longrightarrow> date (dailyProgress s ! j) \<noteq> today clk \<Longrightarrow>
     dailyProgress (toggleGoalCompletion_GoalTracker r clk k s) ! j = dailyProgress s ! j"
  by (simp_all add: ledger_toggle_GoalTracker ledgerAfter_filter ledgerAfter_nth)

text \<open>
  C10: a toggle keeps the length of the goal list and leaves every goal whose id differs
  from the named one as it is; the ledger entries not dated today (the day read at the
  call) are the same entries in the same order, each at its position; the rest of the
  state is untouched. In the component this holds whatever the day of the last rendering.
\<close>

theorem toggle_frame:
  "length (goals (toggleGoalCompletion clk k s)) = length (goals s) \<and>
   (\<forall>i < length (goals s). gid (goals s ! i) \<noteq> k \<longrightarrow>
      goals (toggleGoalCompletion clk k s) ! i = goals s ! i) \<and>
   filter (\<lambda>p. date p \<noteq> today clk) (dailyProgress (toggleGoalCompletion clk k s))
     = filter (\<lambda>p. date p \<noteq> today clk) (dailyProgress s) \<and>
   (\<forall>j < length (dailyProgress s). date (dailyProgress s ! j) \<noteq> today clk \<longrightarrow>
      dailyProgress (toggleGoalCompletion clk k s) ! j = dailyProgress s ! j) \<and>
   GoalState.more (toggleGoalCompletion clk k s) = GoalState.more s \<and>
   length (goals (toggleGoalCompletion_GoalTracker r clk k t)) = length (goals t) \<and>
   (\<forall>i < length (goals t). gid (goals t ! i) \<noteq> k \<longrightarrow>
      goals (toggleGoalCompletion_GoalTracker r clk k t) ! i = goals t ! i) \<and>
   filter (\<lambda>p. date p \<noteq> today clk) (dailyProgress (toggleGoalCompletion_GoalTracker r clk k t))
     = filter (\<lambda>p. date p \<noteq> today clk) (dailyProgress t) \<and>
   (\<forall>j < length (dailyProgress t). date (dailyProgress t ! j) \<noteq> today clk \<longrightarrow>
      dailyProgress (toggleGoalCompletion_GoalTracker r clk k t) ! j = dailyProgress t ! j) \<and>
   GoalState.more (toggleGoalCompletion_GoalTracker r clk k t) = GoalState.more t"
  by (simp add: goals_toggle goals_toggle_GoalTracker length_goalsAfter goalsAfter_other
        more_toggle more_toggle_GoalTracker ledger_frame_store ledger_frame_GoalTracker)

theorem toggle_frame_witness:
  "(1::nat) < length (goals twoGoalStore) \<and> gid (goals twoGoalStore ! 1) \<noteq> ''g2'' \<and>
   goals (toggleGoalCompletion day2 ''g2'' twoGoalStore) ! 1 = goals twoGoalStore ! 1 \<and>
   (0::nat) < length (dailyProgress twoGoalStore) \<and>
   date (dailyProgress twoGoalStore ! 0) \<noteq> today day2 \<and>
   dailyProgress (toggleGoalCompletion day2 ''g2'' twoGoalStore) ! 0
     = dailyProgress twoGoalStore ! 0 \<and>
   (1::nat) < length (goals twoGoalTracker) \<and> gid (goals twoGoalTracker ! 1) \<noteq> ''g2'' \<and>
   goals (toggleGoalCompletion_GoalTracker ''2024-03-01'' day2 ''g2'' twoGoalTracker) ! 1
     = goals twoGoalTracker ! 1 \<and>
   (0::nat) < length (dailyProgress twoGoalTracker) \<and>
   date (dailyProgress twoGoalTracker ! 0) \<noteq> today day2 \<and>
   dailyProgress (toggleGoalCompletion_GoalTracker ''2024-03-01'' day2 ''g2'' twoGoalTracker) ! 0
     = dailyProgress twoGoalTracker ! 0"
proof -
  have h: "(1::nat) < length (goals twoGoalStore) \<and> gid (goals twoGoalStore ! 1) \<noteq> ''g2'' \<and>
      (0::nat) < length (dailyProgress twoGoalStore) \<and>
      date (dailyProgress twoGoalStore ! 0) \<noteq> today day2 \<and>
      (1::nat) < length (goals twoGoalTracker) \<and> gid (goals twoGoalTracker ! 1) \<noteq> ''g2'' \<and>
      (0::nat) < length (dailyProgress twoGoalTracker) \<and>
      date (dailyProgress twoGoalTracker ! 0) \<noteq> today day2"
    by (simp add: twoGoalStore_def twoGoalTracker_def doneStore_eval doneTracker_eval
          newGoal_def day2_def)
  show ?thesis
    using h toggle_frame [of day2 "''g2''" twoGoalStore "''2024-03-01''" twoGoalTracker]
    by blast
qed

section \<open>Two toggles in succession\<close>

lemma twice_goalsAfter:
  assumes "i < length gs" "gid (gs ! i) = k"
    and "date fresh = today clk" "day_goals fresh = [\<lparr>goalId = k, completed = True\<rparr>]"
  shows "goalsAfter (today clk) clk k (ledgerAfter (today clk) fresh clk k dp) (goalsAfter (today clk) clk k dp gs) ! i =
           (if isCompletedOn dp (today clk) k
            then completeGoal (ledgerAfter (today clk) fresh clk k dp) clk k (undoGoal (gs ! i))
            else undoGoal (completeGoal dp clk k (gs ! i)))"
  using assms
  by (simp add: nth_goalsAfter length_goalsAfter gid_undoGoal gid_completeGoal ledgerAfter_today)

lemma twice_counters:
  assumes i: "i < length gs" "gid (gs ! i) = k"
    and fresh: "date fresh = today clk" "day_goals fresh = [\<lparr>goalId = k, completed = True\<rparr>]"
    and days: "yesterdayStr clk \<noteq> today clk"
    and sane: "0 \<le> currentCount (gs ! i)" "0 \<le> streak (gs ! i)"
      "isCompletedOn dp (today clk) k \<longrightarrow> 1 \<le> currentCount (gs ! i) \<and> 1 \<le> streak (gs ! i)"
  defines "g2 \<equiv> goalsAfter (today clk) clk k (ledgerAfter (today clk) fresh clk k dp) (goalsAfter (today clk) clk k dp gs) ! i"
  shows "currentCount g2 = currentCount (gs ! i)"
    and "bestStreak (gs ! i) \<le> bestStreak g2"
    and "isCompletedOn dp (yesterdayStr clk) k \<Longrightarrow> streak g2 = streak (gs ! i)"
    and "\<not> isCompletedOn dp (yesterdayStr clk) k \<Longrightarrow>
         streak g2 = (if isCompletedOn dp (today clk) k then 1 else 0)"
proof -
  have y: "isCompletedOn (ledgerAfter (today clk) fresh clk k dp) (yesterdayStr clk) k
             = isCompletedOn dp (yesterdayStr clk) k"
    using fresh days by (simp add: isCompletedOn_ledgerAfter)
  have g2: "g2 = (if isCompletedOn dp (today clk) k
            then completeGoal (ledgerAfter (today clk) fresh clk k dp) clk k (undoGoal (gs ! i))
            else undoGoal (completeGoal dp clk k (gs ! i)))"
    unfolding g2_def using i fresh by (rule twice_goalsAfter)
  show "currentCount g2 = currentCount (gs ! i)"
    using sane by (auto simp add: g2 counters_undoGoal counters_completeGoal)
  show "bestStreak (gs ! i) \<le> bestStreak g2"
    by (auto simp add: g2 counters_undoGoal counters_completeGoal)
  show "streak g2 = streak (gs ! i)" if "isCompletedOn dp (yesterdayStr clk) k"
    using that sane by (auto simp add: g2 y counters_undoGoal counters_completeGoal)
  show "streak g2 = (if isCompletedOn dp (today clk) k then 1 else 0)"
    if "\<not> isCompletedOn dp (yesterdayStr clk) k"
    using that by (auto simp add: g2 y counters_undoGoal counters_completeGoal)
qed

lemma goals_toggle_twice:
  assumes "i < length (goals s)" "gid (goals s ! i) = k"
  shows "goals (toggleGoalCompletion clk k (toggleGoalCompletion clk k s)) =
           goalsAfter (today clk) clk k
             (ledgerAfter (today clk) \<lparr>date = today clk, day_goals = [\<lparr>goalId = k, completed = True\<rparr>],
                 tasks = []\<rparr> clk k (dailyProgress s))
             (goalsAfter (today clk) clk k (dailyProgress s) (goals s))"
  by (simp add: goals_toggle ledger_toggle find_gid_nth [OF assms])

lemma goals_toggle_twice_GoalTracker:
  assumes "i < length (goals s)" "gid (goals s ! i) = k"
  shows "goals (toggleGoalCompletion_GoalTracker (today clk) clk k (toggleGoalCompletion_GoalTracker (today clk) clk k s)) =
           goalsAfter (today clk) clk k
             (ledgerAfter (today clk) \<lparr>date = today clk, day_goals = [\<lparr>goalId = k, completed = True\<rparr>]\<rparr>
                 clk k (dailyProgress s))
             (goalsAfter (today clk) clk k (dailyProgress s) (goals s))"
  by (simp add: goals_toggle_GoalTracker ledger_toggle_GoalTracker find_gid_nth [OF assms])

lemma flag_toggle_twice:
  assumes "i < length (goals s)" "gid (goals s ! i) = k"
  shows "isCompletedOn (dailyProgress (toggleGoalCompletion clk k (toggleGoalCompletion clk k s)))
           (today clk) k = isCompletedOn (dailyProgress s) (today clk) k"
proof -
  have "find (\<lambda>g. gid g = k) (goals s) \<noteq> None"
    using assms by (rule find_gid_nth)
  moreover have "find (\<lambda>g. gid g = k) (goals (toggleGoalCompletion clk k s)) \<noteq> None"
    using assms by (intro find_gid_nth [of i]) (simp_all add: length_goals_toggle gid_goals_toggle)
  ultimately show ?thesis
    by (simp add: isCompletedOn_toggle)
qed

lemma flag_toggle_twice_GoalTracker:
  assumes "i < length (goals s)" "gid (goals s ! i) = k"
  shows "isCompletedOn (dailyProgress (toggleGoalCompletion_GoalTracker (today clk) clk k
             (toggleGoalCompletion_GoalTracker (today clk) clk k s)))
           (today clk) k = isCompletedOn (dailyProgress s) (today clk) k"
proof -
  have "find (\<lambda>g. gid g = k) (goals s) \<noteq> None"
    using assms by (rule find_gid_nth)
  moreover have "find (\<lambda>g. gid g = k) (goals (toggleGoalCompletion_GoalTracker (today clk) clk k s)) \<noteq> None"
    using assms
    by (intro find_gid_nth [of i])
       (simp_all add: length_goals_toggle_GoalTracker gid_goals_toggle_GoalTracker)
  ultimately show ?thesis
    by (simp add: isCompletedOn_toggle_GoalTracker)
qed

text \<open>
  C2, as the code has it. Take a goal of the state whose count and streak are safe
  integers that are not negative (from 0 up to \<open>2 ^ 53 - 1\<close>) and are at least 1 when the
  goal is completed today, and two toggles in succession with the same clock readings,
  yesterday's key differing from today's; in the component, the first call is made from a
  rendering of that same day (the second is: the first call renders the component anew).
  The two toggles restore the ledger's completed flag of that goal and day and the goal's
  count; the best streak is not lower than before; the streak is restored when the ledger
  shows the goal completed yesterday, and otherwise it ends at 0 (the goal was not
  completed today before the calls) or at 1 (it was), whatever it was before.
\<close>

theorem toggle_twice:
  "(i < length (goals s) \<and> gid (goals s ! i) = k \<and> yesterdayStr clk \<noteq> today clk \<and>
    0 \<le> currentCount (goals s ! i) \<and> currentCount (goals s ! i) < 2 ^ 53 \<and>
    0 \<le> streak (goals s ! i) \<and> streak (goals s ! i) < 2 ^ 53 \<and>
    (isCompletedOn (dailyProgress s) (today clk) k \<longrightarrow>
       1 \<le> currentCount (goals s ! i) \<and> 1 \<le> streak (goals s ! i)) \<longrightarrow>
      isCompletedOn (dailyProgress (toggleGoalCompletion clk k (toggleGoalCompletion clk k s)))
        (today clk) k = isCompletedOn (dailyProgress s) (today clk) k \<and>
      currentCount (goals (toggleGoalCompletion clk k (toggleGoalCompletion clk k s)) ! i)
        = currentCount (goals s ! i) \<and>
      bestStreak (goals s ! i)
        \<le> bestStreak (goals (toggleGoalCompletion clk k (toggleGoalCompletion clk k s)) ! i) \<and>
      (isCompletedOn (dailyProgress s) (yesterdayStr clk) k \<longrightarrow>
         streak (goals (toggleGoalCompletion clk k (toggleGoalCompletion clk k s)) ! i)
           = streak (goals s ! i)) \<and>
      (\<not> isCompletedOn (dailyProgress s) (yesterdayStr clk) k \<longrightarrow>
         streak (goals (toggleGoalCompletion clk k (toggleGoalCompletion clk k s)) ! i)
           = (if isCompletedOn (dailyProgress s) (today clk) k then 1 else 0))) \<and>
   (i < length (goals t) \<and> gid (goals t ! i) = k \<and> yesterdayStr clk \<noteq> today clk \<and>
    0 \<le> currentCount (goals t ! i) \<and> currentCount (goals t ! i) < 2 ^ 53 \<and>
    0 \<le> streak (goals t ! i) \<and> streak (goals t ! i) < 2 ^ 53 \<and>
    (isCompletedOn (dailyProgress t) (today clk) k \<longrightarrow>
       1 \<le> currentCount (goals t ! i) \<and> 1 \<le> streak (goals t ! i)) \<longrightarrow>
      isCompletedOn (dailyProgress (toggleGoalCompletion_GoalTracker (today clk) clk k
          (toggleGoalCompletion_GoalTracker (today clk) clk k t)))
        (today clk) k = isCompletedOn (dailyProgress t) (today clk) k \<and>
      currentCount (goals (toggleGoalCompletion_GoalTracker (today clk) clk k
          (toggleGoalCompletion_GoalTracker (today clk) clk k t)) ! i)
        = currentCount (goals t ! i) \<and>
      bestStreak (goals t ! i)
        \<le> bestStreak (goals (toggleGoalCompletion_GoalTracker (today clk) clk k
             (toggleGoalCompletion_GoalTracker (today clk) clk k t)) ! i) \<and>
      (isCompletedOn (dailyProgress t) (yesterdayStr clk) k \<longrightarrow>
         streak (goals (toggleGoalCompletion_GoalTracker (today clk) clk k
             (toggleGoalCompletion_GoalTracker (today clk) clk k t)) ! i)
           = streak (goals t ! i)) \<and>
      (\<not> isCompletedOn (dailyProgress t) (yesterdayStr clk) k \<longrightarrow>
         streak (goals (toggleGoalCompletion_GoalTracker (today clk) clk k
             (toggleGoalCompletion_GoalTracker (today clk) clk k t)) ! i)
           = (if isCompletedOn (dailyProgress t) (today clk) k then 1 else 0)))"
proof (intro conjI impI)
  assume a: "i < length (goals s) \<and> gid (goals s ! i) = k \<and> yesterdayStr clk \<noteq> today clk \<and>
    0 \<le> currentCount (goals s ! i) \<and> currentCount (goals s ! i) < 2 ^ 53 \<and>
    0 \<le> streak (goals s ! i) \<and> streak (goals s ! i) < 2 ^ 53 \<and>
    (isCompletedOn (dailyProgress s) (today clk) k \<longrightarrow>
       1 \<le> currentCount (goals s ! i) \<and> 1 \<le> streak (goals s ! i))"
  then have i: "i < length (goals s)" "gid (goals s ! i) = k" by simp_all
  note tw = twice_counters [where fresh = "\<lparr>date = today clk,
      day_goals = [\<lparr>goalId = k, completed = True\<rparr>], tasks = []\<rparr>" and dp = "dailyProgress s"
      and gs = "goals s" and i = i and k = k and clk = clk, folded goals_toggle_twice [OF i]]
  show "isCompletedOn (dailyProgress (toggleGoalCompletion clk k (toggleGoalCompletion clk k s)))
        (today clk) k = isCompletedOn (dailyProgress s) (today clk) k"
    using i by (rule flag_toggle_twice)
  show "currentCount (goals (toggleGoalCompletion clk k (toggleGoalCompletion clk k s)) ! i)
        = currentCount (goals s ! i)"
    using a by (intro tw(1)) simp_all
  show "bestStreak (goals s ! i)
        \<le> bestStreak (goals (toggleGoalCompletion clk k (toggleGoalCompletion clk k s)) ! i)"
    using a by (intro tw(2)) simp_all
  show "streak (goals (toggleGoalCompletion clk k (toggleGoalCompletion clk k s)) ! i)
           = streak (goals s ! i)"
    if "isCompletedOn (dailyProgress s) (yesterdayStr clk) k"
    using a that by (intro tw(3)) simp_all
  show "streak (goals (toggleGoalCompletion clk k (toggleGoalCompletion clk k s)) ! i)
           = (if isCompletedOn (dailyProgress s) (today clk) k then 1 else 0)"
    if "\<not> isCompletedOn (dailyProgress s) (yesterdayStr clk) k"
    using a that by (intro tw(4)) simp_all
next
  assume a: "i < length (goals t) \<and> gid (goals t ! i) = k \<and> yesterdayStr clk \<noteq> today clk \<and>
    0 \<le> currentCount (goals t ! i) \<and> currentCount (goals t ! i) < 2 ^ 53 \<and>
    0 \<le> streak (goals t ! i) \<and> streak (goals t ! i) < 2 ^ 53 \<and>
    (isCompletedOn (dailyProgress t) (today clk) k \<longrightarrow>
       1 \<le> currentCount (goals t ! i) \<and> 1 \<le> streak (goals t ! i))"
  then have i: "i < length (goals t)" "gid (goals t ! i) = k" by simp_all
  note tw = twice_counters [where fresh = "\<lparr>date = today clk,
      day_goals = [\<lparr>goalId = k, completed = True\<rparr>]\<rparr>" and dp = "dailyProgress t"
      and gs = "goals t" and i = i and k = k and clk = clk,
      folded goals_toggle_twice_GoalTracker [OF i]]
  show "isCompletedOn (dailyProgress (toggleGoalCompletion_GoalTracker (today clk) clk k
          (toggleGoalCompletion_GoalTracker (today clk) clk k t)))
        (today clk) k = isCompletedOn (dailyProgress t) (today clk) k"
    using i by (rule flag_toggle_twice_GoalTracker)
  show "currentCount (goals (toggleGoalCompletion_GoalTracker (today clk) clk k
          (toggleGoalCompletion_GoalTracker (today clk) clk k t)) ! i)
        = currentCount (goals t ! i)"
    using a by (intro tw(1)) simp_all
  show "bestStreak (goals t ! i)
        \<le> bestStreak (goals (toggleGoalCompletion_GoalTracker (today clk) clk k
             (toggleGoalCompletion_GoalTracker (today clk) clk k t)) ! i)"
    using a by (intro tw(2)) simp_all
  show "streak (goals (toggleGoalCompletion_GoalTracker (today clk) clk k
             (toggleGoalCompletion_GoalTracker (today clk) clk k t)) ! i)
           = streak (goals t ! i)"
    if "isCompletedOn (dailyProgress t) (yesterdayStr clk) k"
    using a that by (intro tw(3)) simp_all
  show "streak (goals (toggleGoalCompletion_GoalTracker (today clk) clk k
             (toggleGoalCompletion_GoalTracker (today clk) clk k t)) ! i)
           = (if isCompletedOn (dailyProgress t) (today clk) k then 1 else 0)"
    if "\<not> isCompletedOn (dailyProgress t) (yesterdayStr clk) k"
    using a that by (intro tw(4)) simp_all
qed

theorem toggle_twice_witness:
  "(0::nat) < length (goals doneStore) \<and> gid (goals doneStore ! 0) = ''g1'' \<and>
   yesterdayStr day1 \<noteq> today day1 \<and>
   isCompletedOn (dailyProgress doneStore) (today day1) ''g1'' \<and>
   1 \<le> currentCount (goals doneStore ! 0) \<and> 1 \<le> streak (goals doneStore ! 0) \<and>
   \<not> isCompletedOn (dailyProgress doneStore) (yesterdayStr day1) ''g1'' \<and>
   isCompletedOn (dailyProgress (toggleGoalCompletion day1 ''g1''
     (toggleGoalCompletion day1 ''g1'' doneStore))) (today day1) ''g1'' \<and>
   currentCount (goals (toggleGoalCompletion day1 ''g1''
     (toggleGoalCompletion day1 ''g1'' doneStore)) ! 0) = currentCount (goals doneStore ! 0) \<and>
   streak (goals (toggleGoalCompletion day1 ''g1''
     (toggleGoalCompletion day1 ''g1'' doneStore)) ! 0) = 1 \<and>
   (0::nat) < length (goals doneTracker) \<and> gid (goals doneTracker ! 0) = ''g1'' \<and>
   isCompletedOn (dailyProgress doneTracker) (today day1) ''g1'' \<and>
   1 \<le> currentCount (goals doneTracker ! 0) \<and> 1 \<le> streak (goals doneTracker ! 0) \<and>
   \<not> isCompletedOn (dailyProgress doneTracker) (yesterdayStr day1) ''g1'' \<and>
   isCompletedOn (dailyProgress (toggleGoalCompletion_GoalTracker (today day1) day1 ''g1''
     (toggleGoalCompletion_GoalTracker (today day1) day1 ''g1'' doneTracker))) (today day1) ''g1'' \<and>
   currentCount (goals (toggleGoalCompletion_GoalTracker (today day1) day1 ''g1''
     (toggleGoalCompletion_GoalTracker (today day1) day1 ''g1'' doneTracker)) ! 0)
     = currentCount (goals doneTracker ! 0) \<and>
   streak (goals (toggleGoalCompletion_GoalTracker (today day1) day1 ''g1''
     (toggleGoalCompletion_GoalTracker (today day1) day1 ''g1'' doneTracker)) ! 0) = 1"
proof -
  have h: "(0::nat) < length (goals doneStore) \<and> gid (goals doneStore ! 0) = ''g1'' \<and>
      yesterdayStr day1 \<noteq> today day1 \<and>
      isCompletedOn (dailyProgress doneStore) (today day1) ''g1'' \<and>
      currentCount (goals doneStore ! 0) = 1 \<and> streak (goals doneStore ! 0) = 1 \<and>
      \<not> isCompletedOn (dailyProgress doneStore) (yesterdayStr day1) ''g1'' \<and>
      (0::nat) < length (goals doneTracker) \<and> gid (goals doneTracker ! 0) = ''g1'' \<and>
      isCompletedOn (dailyProgress doneTracker) (today day1) ''g1'' \<and>
      currentCount (goals doneTracker ! 0) = 1 \<and> streak (goals doneTracker ! 0) = 1 \<and>
      \<not> isCompletedOn (dailyProgress doneTracker) (yesterdayStr day1) ''g1''"
    by (simp add: doneStore_eval doneTracker_eval newGoal_def isCompletedOn_def completedIn_def
          day1_def)
  show ?thesis
    using h toggle_twice [of 0 doneStore "''g1''" day1 doneTracker]
    by simp
qed

text \<open>
  The claim as worded fails for the streak. The goal completed on 1 and 2 March has streak
  2; on 4 March the first toggle resets the streak to 1 (3 March is missing) and the second
  takes 1 off: the streak is 0, not 2.
\<close>

lemma twoDayStore_eval:
  "twoDayStore = \<lparr>goals = [(newGoal ''g1'' SActive)
       \<lparr>currentCount := 2, streak := 2, bestStreak := 2, lastCompleted := Some 2\<rparr>],
     dailyProgress =
       [\<lparr>date = ''2024-03-01'', day_goals = [\<lparr>goalId = ''g1'', completed = True\<rparr>], tasks = []\<rparr>,
        \<lparr>date = ''2024-03-02'', day_goals = [\<lparr>goalId = ''g1'', completed = True\<rparr>], tasks = []\<rparr>]\<rparr>"
  by (simp add: twoDayStore_def toggles_def doneStore_eval [unfolded doneStore_def])
     (simp add: toggleGoalCompletion_def newGoal_def day2_def isCompletedOn_def completedIn_def
        completeGoal_def)

lemma twoDayTracker_eval:
  "twoDayTracker = \<lparr>goals = [(newGoal ''g1'' Active)
       \<lparr>currentCount := 2, streak := 2, bestStreak := 2, lastCompleted := Some 2\<rparr>],
     dailyProgress =
       [\<lparr>date = ''2024-03-01'', day_goals = [\<lparr>goalId = ''g1'', completed = True\<rparr>]\<rparr>,
        \<lparr>date = ''2024-03-02'', day_goals = [\<lparr>goalId = ''g1'', completed = True\<rparr>]\<rparr>]\<rparr>"
  by (simp add: twoDayTracker_def toggles_GoalTracker_def doneTracker_eval [unfolded doneTracker_def])
     (simp add: toggleGoalCompletion_GoalTracker_def newGoal_def day2_def isCompletedOn_def
        completedIn_def completeGoal_def todayProgress_def completeProgress_def)

theorem toggle_twice_streak_counterexample:
  "gid (goals twoDayStore ! 0) = ''g1'' \<and> streak (goals twoDayStore ! 0) = 2 \<and>
   streak (goals (toggleGoalCompletion day4 ''g1''
     (toggleGoalCompletion day4 ''g1'' twoDayStore)) ! 0) = 0 \<and>
   gid (goals twoDayTracker ! 0) = ''g1'' \<and> streak (goals twoDayTracker ! 0) = 2 \<and>
   streak (goals (toggleGoalCompletion_GoalTracker (today day4) day4 ''g1''
     (toggleGoalCompletion_GoalTracker (today day4) day4 ''g1'' twoDayTracker)) ! 0) = 0"
proof -
  have s: "(0::nat) < length (goals twoDayStore)" "gid (goals twoDayStore ! 0) = ''g1''"
    "streak (goals twoDayStore ! 0) = 2"
    "\<not> isCompletedOn (dailyProgress twoDayStore) (today day4) ''g1''"
    "\<not> isCompletedOn (dailyProgress twoDayStore) (yesterdayStr day4) ''g1''"
    by (simp_all add: twoDayStore_eval newGoal_def isCompletedOn_def day4_def)
  have t: "(0::nat) < length (goals twoDayTracker)" "gid (goals twoDayTracker ! 0) = ''g1''"
    "streak (goals twoDayTracker ! 0) = 2"
    "\<not> isCompletedOn (dailyProgress twoDayTracker) (today day4) ''g1''"
    "\<not> isCompletedOn (dailyProgress twoDayTracker) (yesterdayStr day4) ''g1''"
    by (simp_all add: twoDayTracker_eval newGoal_def isCompletedOn_def day4_def)
  have "streak (goals (toggleGoalCompletion day4 ''g1''
     (toggleGoalCompletion day4 ''g1'' twoDayStore)) ! 0) = 0"
    using s
    by (simp add: goals_toggle_twice [of 0] twice_goalsAfter [of 0] counters_undoGoal
          counters_completeGoal)
  moreover have "streak (goals (toggleGoalCompletion_GoalTracker (today day4) day4 ''g1''
     (toggleGoalCompletion_GoalTracker (today day4) day4 ''g1'' twoDayTracker)) ! 0) = 0"
    using t
    by (simp add: goals_toggle_twice_GoalTracker [of 0] twice_goalsAfter [of 0] counters_undoGoal
          counters_completeGoal)
  ultimately show ?thesis
    using s t by simp
qed

section \<open>Deleting a goal\<close>

lemma set_streakLeaders: "set (streakLeaders gs) \<subseteq> set gs"
proof -
  have "set (streakLeaders gs)
          \<subseteq> set (sort_key (\<lambda>g. - streak g) (filter (\<lambda>g. status g = Active) gs))"
    unfolding streakLeaders_def by (rule set_take_subset)
  also have "\<dots> = set (filter (\<lambda>g. status g = Active) gs)"
    by (rule set_sort)
  also have "\<dots> \<subseteq> set gs"
    by (rule filter_is_subset)
  finally show ?thesis .
qed

lemma goals_deleteGoal: "goals (deleteGoal k s) = filter (\<lambda>g. gid g \<noteq> k) (goals s)"
  by (simp add: deleteGoal_def)

lemma dailyProgress_deleteGoal: "dailyProgress (deleteGoal k s) = dailyProgress s"
  by (simp add: deleteGoal_def)

lemma more_deleteGoal: "GoalState.more (deleteGoal k s) = GoalState.more s"
  by (simp add: deleteGoal_def)

lemma gid_deleteGoal: "g \<in> set (goals (deleteGoal k s)) \<Longrightarrow> gid g \<noteq> k"
  by (simp add: goals_deleteGoal)

lemma gid_streakLeaders_deleteGoal:
  "g \<in> set (streakLeaders (goals (deleteGoal k s))) \<Longrightarrow> gid g \<noteq> k"
  using set_streakLeaders [of "goals (deleteGoal k s)"] gid_deleteGoal [of g k s] by blast

text \<open>
  C3, as the code has it: \<^verbatim>\<open>deleteGoal\<close> removes every goal with the id from the goal list,
  keeps the other goals in their order, and leaves the ledger and the rest of the state as
  they are, so the records of the id stay in the ledger. No goal with the id is among the
  streak leaders afterwards.
\<close>

theorem deleteGoal_goals_only:
  "goals (deleteGoal k s) = filter (\<lambda>g. gid g \<noteq> k) (goals s) \<and>
   (\<forall>g \<in> set (goals (deleteGoal k s)). gid g \<noteq> k) \<and>
   dailyProgress (deleteGoal k s) = dailyProgress s \<and>
   GoalState.more (deleteGoal k s) = GoalState.more s \<and>
   (\<forall>d. isCompletedOn (dailyProgress (deleteGoal k s)) d k = isCompletedOn (dailyProgress s) d k) \<and>
   (\<forall>g \<in> set (streakLeaders (goals (deleteGoal k t))). gid g \<noteq> k)"
proof (intro conjI ballI allI)
  show "goals (deleteGoal k s) = filter (\<lambda>g. gid g \<noteq> k) (goals s)"
    by (rule goals_deleteGoal)
  show "dailyProgress (deleteGoal k s) = dailyProgress s"
    by (rule dailyProgress_deleteGoal)
  show "GoalState.more (deleteGoal k s) = GoalState.more s"
    by (rule more_deleteGoal)
  show "isCompletedOn (dailyProgress (deleteGoal k s)) d k = isCompletedOn (dailyProgress s) d k"
    for d by (simp only: dailyProgress_deleteGoal)
  show "gid g \<noteq> k" if "g \<in> set (goals (deleteGoal k s))" for g
    using that by (rule gid_deleteGoal)
  show "gid g \<noteq> k" if "g \<in> set (streakLeaders (goals (deleteGoal k t)))" for g
    using that by (rule gid_streakLeaders_deleteGoal)
qed

theorem deleteGoal_goals_only_witness:
  "goals (deleteGoal ''g1'' twoGoalStore) = [newGoal ''g2'' SActive] \<and>
   dailyProgress (deleteGoal ''g1'' twoGoalStore) = dailyProgress twoGoalStore \<and>
   streakLeaders (goals (deleteGoal ''g1'' twoGoalTracker)) = [newGoal ''g2'' Active] \<and>
   gid (newGoal ''g2'' Active) \<noteq> ''g1''"
proof -
  note d = deleteGoal_goals_only [of "''g1''" twoGoalStore twoGoalTracker]
  have g: "goals twoGoalStore = [newGoal ''g2'' SActive,
      (newGoal ''g1'' SActive)\<lparr>currentCount := 1, streak := 1, bestStreak := 1,
        lastCompleted := Some 1\<rparr>]"
    by (simp add: twoGoalStore_def doneStore_eval)
  have "goals (deleteGoal ''g1'' twoGoalStore) = [newGoal ''g2'' SActive]"
    unfolding d [THEN conjunct1] g by (simp add: newGoal_def)
  moreover have "dailyProgress (deleteGoal ''g1'' twoGoalStore) = dailyProgress twoGoalStore"
    using d by (elim conjE)
  moreover have "streakLeaders (goals (deleteGoal ''g1'' twoGoalTracker)) = [newGoal ''g2'' Active]"
    by (simp add: goals_deleteGoal twoGoalTracker_def doneTracker_eval newGoal_def
          streakLeaders_def)
  moreover have "gid (newGoal ''g2'' Active) \<noteq> ''g1''"
    by (simp add: newGoal_def)
  ultimately show ?thesis
    by (intro conjI)
qed

text \<open>
  The claim as worded fails: after the goal completed on 1 March is deleted, the entry of
  1 March still holds its record, and \<^verbatim>\<open>todayStats\<close> still counts it.
\<close>

theorem deleteGoal_ledger_counterexample:
  "goals (deleteGoal ''g1'' doneStore) = [] \<and>
   date (dailyProgress (deleteGoal ''g1'' doneStore) ! 0) = ''2024-03-01'' \<and>
   goalId (day_goals (dailyProgress (deleteGoal ''g1'' doneStore) ! 0) ! 0) = ''g1'' \<and>
   goals (deleteGoal ''g1'' doneTracker) = [] \<and>
   date (dailyProgress (deleteGoal ''g1'' doneTracker) ! 0) = ''2024-03-01'' \<and>
   goalId (day_goals (dailyProgress (deleteGoal ''g1'' doneTracker) ! 0) ! 0) = ''g1'' \<and>
   completedToday (todayStats ''2024-03-01'' (goals (deleteGoal ''g1'' doneTracker))
     (dailyProgress (deleteGoal ''g1'' doneTracker))) = 1"
  by (simp add: deleteGoal_def doneStore_eval doneTracker_eval newGoal_def todayStats_def
        todayProgress_def)

section \<open>Today's statistics\<close>

subsection \<open>Rounding to a double\<close>

lemma binade_bounds:
  assumes "0 < x"
  shows "power_int 2 (binade x) \<le> x \<and> x < power_int 2 (binade x + 1)"
proof -
  obtain a b where q: "quotient_of x = (a, b)" by (cases "quotient_of x")
  have b: "0 < b" using q by (rule quotient_of_denom_pos)
  have x: "x = of_int a / of_int b" using q by (rule quotient_of_div)
  have a: "0 < a" using assms b unfolding x by (simp add: zero_less_divide_iff)
  define e where "e = bitlen a - bitlen b"
  have la: "1 \<le> bitlen a" and lb: "1 \<le> bitlen b"
    using a b by (auto simp: bitlen_alt_def)
  have ba: "(2::rat) powi (bitlen a - 1) \<le> of_int a \<and> of_int a < (2::rat) powi (bitlen a)"
  proof -
    have "(2::int) ^ nat (bitlen a - 1) \<le> a \<and> a < 2 ^ nat (bitlen a)"
      using a by (rule bitlen_bounds)
    then have "(of_int ((2::int) ^ nat (bitlen a - 1)) :: rat) \<le> of_int a \<and>
               (of_int a :: rat) < of_int ((2::int) ^ nat (bitlen a))"
      by (simp only: of_int_le_iff of_int_less_iff)
    then show ?thesis using la by (simp add: power_int_def)
  qed
  have bb: "(2::rat) powi (bitlen b - 1) \<le> of_int b \<and> of_int b < (2::rat) powi (bitlen b)"
  proof -
    have "(2::int) ^ nat (bitlen b - 1) \<le> b \<and> b < 2 ^ nat (bitlen b)"
      using b by (rule bitlen_bounds)
    then have "(of_int ((2::int) ^ nat (bitlen b - 1)) :: rat) \<le> of_int b \<and>
               (of_int b :: rat) < of_int ((2::int) ^ nat (bitlen b))"
      by (simp only: of_int_le_iff of_int_less_iff)
    then show ?thesis using lb by (simp add: power_int_def)
  qed
  have pb: "(0::rat) < of_int b" using b by simp
  have lo: "(2::rat) powi (e - 1) < x"
  proof -
    have "(2::rat) powi (e - 1) * of_int b < (2::rat) powi (e - 1) * 2 powi (bitlen b)"
      using bb by (intro mult_strict_left_mono) simp_all
    also have "\<dots> = (2::rat) powi (bitlen a - 1)"
      by (simp add: e_def flip: power_int_add)
    also have "\<dots> \<le> of_int a" using ba by simp
    finally show ?thesis unfolding x using pb by (simp add: pos_less_divide_eq)
  qed
  have hi: "x < (2::rat) powi (e + 1)"
  proof -
    have "of_int a < (2::rat) powi (bitlen a)" using ba by simp
    also have "\<dots> = (2::rat) powi (e + 1) * 2 powi (bitlen b - 1)"
      by (simp add: e_def flip: power_int_add)
    also have "\<dots> \<le> (2::rat) powi (e + 1) * of_int b"
      using bb by (intro mult_left_mono) simp_all
    finally show ?thesis unfolding x using pb by (simp add: pos_divide_less_eq)
  qed
  have bin: "binade x = (if (2::rat) powi e \<le> x then e else e - 1)"
    by (simp add: binade_def q e_def)
  show ?thesis
    using lo hi by (auto simp: bin)
qed

lemma binade_unique:
  assumes "0 < x" "power_int 2 e \<le> x" "x < power_int 2 (e + 1)"
  shows "binade x = e"
proof (rule ccontr)
  assume ne: "binade x \<noteq> e"
  have b: "power_int 2 (binade x) \<le> x \<and> x < power_int 2 (binade x + 1)"
    using assms(1) by (rule binade_bounds)
  show False
  proof (cases "binade x < e")
    case True
    then have "(2::rat) powi (binade x + 1) \<le> 2 powi e"
      by (intro power_int_increasing) simp_all
    then show False using b assms(2) by simp
  next
    case False
    then have "e + 1 \<le> binade x" using ne by simp
    then have "(2::rat) powi (e + 1) \<le> 2 powi (binade x)"
      by (intro power_int_increasing) simp_all
    then show False using b assms(3) by simp
  qed
qed

lemma roundHalfEven_down:
  "of_int f \<le> m \<Longrightarrow> m < of_int f + 1 / 2 \<Longrightarrow> roundHalfEven m = f"
proof -
  assume a: "of_int f \<le> m" "m < of_int f + 1 / 2"
  then have "\<lfloor>m\<rfloor> = f" by (intro floor_unique) simp_all
  then show ?thesis using a by (simp add: roundHalfEven_def Let_def)
qed

lemma toDouble_rounds_down:
  assumes "0 < x" "power_int 2 e \<le> x" "x < power_int 2 (e + 1)" "- 1022 \<le> e" "e < 1024"
    and "of_int f \<le> x / power_int 2 (e - 52)" "x / power_int 2 (e - 52) < of_int f + 1 / 2"
  shows "toDouble x = Finite (of_int f * power_int 2 (e - 52))"
proof -
  have bin: "binade x = e" using assms(1-3) by (rule binade_unique)
  have u: "(0::rat) < 2 powi (e - 52)" by simp
  have r: "roundHalfEven (x / 2 powi (e - 52)) = f"
    using assms(6,7) by (rule roundHalfEven_down)
  have m: "toDoubleMagnitude x = of_int f * 2 powi (e - 52)"
    using assms(4) by (simp add: toDoubleMagnitude_def bin r max_def)
  have "of_int f * 2 powi (e - 52) \<le> x"
    using assms(6) u by (simp add: pos_le_divide_eq)
  also have "x < (2::rat) powi (e + 1)" by (rule assms(3))
  also have "(2::rat) powi (e + 1) \<le> 2 powi 1024"
    using assms(5) by (intro power_int_increasing) simp_all
  finally have "\<not> (2::rat) powi 1024 \<le> of_int f * 2 powi (e - 52)" by simp
  then show ?thesis
    using assms(1) by (simp add: toDouble_def m Let_def del: power_int_numeral)
qed

lemma toDouble_23_40: "toDouble (23 / 40) = Finite (2589569785738035 / 4503599627370496)"
  using toDouble_rounds_down [of "23 / 40" "- 1" 5179139571476070] by simp

lemma toDouble_23_40_times100:
  "toDouble (2589569785738035 / 4503599627370496 * 100) = Finite (8092405580431359 / 140737488355328)"
  using toDouble_rounds_down [of "2589569785738035 / 4503599627370496 * 100" 5 8092405580431359]
  by simp

lemma toDouble_1: "toDouble 1 = Finite 1"
  using toDouble_rounds_down [of 1 0 4503599627370496] by simp

lemma toDouble_100: "toDouble 100 = Finite 100"
  using toDouble_rounds_down [of 100 6 7036874417766400] by simp


lemma roundHalfEven_error: "\<bar>of_int (roundHalfEven m) - m\<bar> \<le> 1 / 2"
proof -
  have "of_int \<lfloor>m\<rfloor> \<le> m" "m < of_int \<lfloor>m\<rfloor> + 1" by linarith+
  then show ?thesis
    by (auto simp add: roundHalfEven_def Let_def abs_le_iff)
qed

lemma toDouble_error:
  assumes lo: "power_int 2 (- 1022) \<le> x" and hi: "x \<le> power_int 2 1023"
  shows "\<exists>y. toDouble x = Finite y \<and> \<bar>y - x\<bar> \<le> x / 2 ^ 53"
proof -
  have pos: "0 < x"
  proof -
    have "(0::rat) < power_int 2 (- 1022)" by (rule zero_less_power_int) simp
    then show ?thesis using lo by (rule less_le_trans)
  qed
  define e where "e = binade x"
  have b: "power_int 2 e \<le> x" "x < power_int 2 (e + 1)"
    using binade_bounds [OF pos] by (simp_all add: e_def)
  have e: "- 1022 \<le> e"
  proof (rule ccontr)
    assume "\<not> - 1022 \<le> e"
    then have "e + 1 \<le> - 1022" by simp
    then have "(2::rat) powi (e + 1) \<le> 2 powi (- 1022)"
      by (intro power_int_increasing) simp_all
    then show False using b(2) lo by linarith
  qed
  define u :: rat where "u = 2 powi (e - 52)"
  have u: "0 < u" by (simp add: u_def)
  define f where "f = roundHalfEven (x / u)"
  have m: "toDoubleMagnitude x = of_int f * u"
    using e by (simp add: toDoubleMagnitude_def e_def [symmetric] max_def f_def u_def Let_def)
  have "\<bar>of_int f - x / u\<bar> \<le> 1 / 2" unfolding f_def by (rule roundHalfEven_error)
  then have "\<bar>of_int f - x / u\<bar> * u \<le> 1 / 2 * u"
    using u by (intro mult_right_mono) simp_all
  moreover have "\<bar>of_int f - x / u\<bar> * u = \<bar>of_int f * u - x\<bar>"
  proof -
    have "\<bar>of_int f - x / u\<bar> * u = \<bar>(of_int f - x / u) * u\<bar>"
      using u by (simp add: abs_mult)
    also have "(of_int f - x / u) * u = of_int f * u - x"
      using u by (simp add: algebra_simps)
    finally show ?thesis .
  qed
  ultimately have d: "\<bar>of_int f * u - x\<bar> \<le> u / 2" by simp
  have "u = 2 powi e / 2 ^ 52" by (simp add: u_def power_int_diff)
  then have "u / 2 = 2 powi e / 2 ^ 53" by simp
  also have "\<dots> \<le> x / 2 ^ 53" using b(1) by (intro divide_right_mono) simp_all
  finally have half: "u / 2 \<le> x / 2 ^ 53" .
  have err: "\<bar>of_int f * u - x\<bar> \<le> x / 2 ^ 53" using d half by simp
  have "of_int f * u \<le> x + x / 2 ^ 53" using err by linarith
  also have "\<dots> < x + x" using pos by (intro add_strict_left_mono) simp
  also have "\<dots> \<le> 2 powi 1023 + 2 powi 1023" using hi by (intro add_mono)
  also have "\<dots> = (2::rat) powi 1024" by simp
  finally have "\<not> (2::rat) powi 1024 \<le> of_int f * u" by simp
  then have "toDouble x = Finite (of_int f * u)"
    using pos by (simp add: toDouble_def m Let_def del: power_int_numeral)
  then show ?thesis using err by blast
qed


lemma double_range:
  assumes "1 / 2 ^ 60 \<le> (x::rat)" "x \<le> 2 ^ 70"
  shows "power_int 2 (- 1022) \<le> x \<and> x \<le> power_int 2 1023"
proof -
  have "(2::rat) powi (- 1022) \<le> 2 powi (- 60)"
    by (intro power_int_increasing) simp_all
  also have "\<dots> = 1 / 2 ^ 60" by (simp add: power_int_minus field_simps)
  finally have a: "(2::rat) powi (- 1022) \<le> x" using assms(1) by simp
  have "(2::rat) ^ 70 = 2 powi 70" by simp
  also have "\<dots> \<le> 2 powi 1023" by (intro power_int_increasing) simp_all
  finally have "x \<le> (2::rat) powi 1023" using assms(2) by simp
  then show ?thesis using a by simp
qed

lemma Math_round_error: "\<bar>of_int \<lfloor>y + 1 / 2\<rfloor> - y\<bar> \<le> (1 / 2 :: rat)"
proof -
  have "of_int \<lfloor>y + 1 / 2\<rfloor> \<le> y + 1 / 2" "y + 1 / 2 < of_int \<lfloor>y + 1 / 2\<rfloor> + 1"
    by linarith+
  then show ?thesis by linarith
qed

lemma percentage_error:
  assumes c: "0 < c" "c < 2 ^ 53" and t: "0 < t" "t < 2 ^ 53"
  shows "\<exists>p. Math_round (js_times100 (js_div c t)) = Finite (of_int p) \<and>
           \<bar>of_int p - (of_nat c :: rat) / of_nat t * 100\<bar>
             \<le> 1 / 2 + of_nat c / of_nat t / 2 ^ 44"
proof -
  define x :: rat where "x = of_nat c / of_nat t"
  have tr: "(0::rat) < of_nat t" "(of_nat t :: rat) \<le> 2 ^ 53"
  proof -
    show "(0::rat) < of_nat t" using t(1) by simp
    have "(of_nat t :: rat) \<le> of_nat (2 ^ 53)" using t(2) by (simp only: of_nat_le_iff)
    then show "(of_nat t :: rat) \<le> 2 ^ 53" by simp
  qed
  have cr: "(1::rat) \<le> of_nat c" "(of_nat c :: rat) \<le> 2 ^ 53"
  proof -
    have "(of_nat 1 :: rat) \<le> of_nat c" using c(1) by (simp only: of_nat_le_iff)
    then show "(1::rat) \<le> of_nat c" by simp
    have "(of_nat c :: rat) \<le> of_nat (2 ^ 53)" using c(2) by (simp only: of_nat_le_iff)
    then show "(of_nat c :: rat) \<le> 2 ^ 53" by simp
  qed
  have xlo: "1 / 2 ^ 53 \<le> x"
  proof -
    have "1 / 2 ^ 53 \<le> 1 / (of_nat t :: rat)"
      using tr by (intro divide_left_mono) simp_all
    also have "\<dots> \<le> of_nat c / of_nat t"
      using cr(1) tr(1) by (intro divide_right_mono) simp_all
    finally show ?thesis by (simp add: x_def)
  qed
  have xhi: "x \<le> 2 ^ 53"
  proof -
    have "(1::rat) \<le> of_nat t" using t(1) by simp
    then have "of_nat c / of_nat t \<le> (of_nat c :: rat)"
      using cr(1) by (simp add: pos_divide_le_eq mult_le_cancel_left1)
    then show ?thesis using cr(2) by (simp add: x_def)
  qed
  have xpos: "0 < x" using xlo by (rule less_le_trans [rotated]) simp
  have "power_int 2 (- 1022) \<le> x \<and> x \<le> power_int 2 1023"
    using xlo xhi by (intro double_range) simp_all
  then obtain q where q: "toDouble x = Finite q" "\<bar>q - x\<bar> \<le> x / 2 ^ 53"
    using toDouble_error [of x] by blast
  have small: "x / 2 ^ 53 \<le> x / 2" using xpos by (intro divide_left_mono) simp_all
  have qlo: "x / 2 \<le> q" and qhi: "q \<le> 2 * x"
    using q(2) small xpos by linarith+
  have "power_int 2 (- 1022) \<le> q * 100 \<and> q * 100 \<le> power_int 2 1023"
    using qlo qhi xlo xhi by (intro double_range) simp_all
  then obtain y where y: "toDouble (q * 100) = Finite y" "\<bar>y - q * 100\<bar> \<le> q * 100 / 2 ^ 53"
    using toDouble_error [of "q * 100"] by blast
  define p where "p = \<lfloor>y + 1 / 2\<rfloor>"
  have r: "Math_round (js_times100 (js_div c t)) = Finite (of_int p)"
    using t(1) by (simp add: js_div_def x_def [symmetric] q(1) y(1) p_def)
  have e1: "\<bar>of_int p - y\<bar> \<le> 1 / 2" unfolding p_def by (rule Math_round_error)
  have e2: "\<bar>y - q * 100\<bar> \<le> 200 * (x / 2 ^ 53)"
  proof -
    have "q * 100 / 2 ^ 53 \<le> (2 * x) * 100 / 2 ^ 53"
      using qhi by (intro divide_right_mono mult_right_mono) simp_all
    then show ?thesis using y(2) by linarith
  qed
  have e3: "\<bar>q * 100 - x * 100\<bar> \<le> 100 * (x / 2 ^ 53)"
    using q(2) by linarith
  have "\<bar>of_int p - x * 100\<bar> \<le> 1 / 2 + 300 * (x / 2 ^ 53)"
    using e1 e2 e3 by linarith
  also have "300 * (x / 2 ^ 53) \<le> 512 * (x / 2 ^ 53)"
    using xpos by (intro mult_right_mono) simp_all
  also have "512 * (x / 2 ^ 53) = x / 2 ^ 44" by simp
  finally have "\<bar>of_int p - x * 100\<bar> \<le> 1 / 2 + x / 2 ^ 44" by simp
  then show ?thesis using r unfolding x_def by blast
qed

lemma toDouble_0: "toDouble 0 = Finite 0"
  by (simp add: toDouble_def)

lemma percentage_all: "0 < t \<Longrightarrow> or_zero (Math_round (js_times100 (js_div t t))) = Finite 100"
  by (simp add: js_div_def toDouble_1 toDouble_100 floor_eq_iff)

lemma percentage_none: "or_zero (Math_round (js_times100 (js_div 0 t))) = Finite 0"
  by (simp add: js_div_def toDouble_0 floor_eq_iff)

lemma percentage_23_40: "or_zero (Math_round (js_times100 (js_div 23 40))) = Finite 57"
proof -
  have "js_div 23 40 = Finite (2589569785738035 / 4503599627370496)"
    by (simp add: js_div_def toDouble_23_40)
  then have "js_times100 (js_div 23 40) = Finite (8092405580431359 / 140737488355328)"
    by (simp only: js_times100.simps toDouble_23_40_times100)
  then show ?thesis by (simp add: floor_eq_iff)
qed

subsection \<open>The statistics\<close>

text \<open>
  C5, as the code has it: \<open>total\<close> is the number of active goals; \<open>completed\<close> is the number
  of records flagged completed in the first ledger entry dated today (0 without such an
  entry), whatever the status of their goals. With both positive (and below \<open>2 ^ 53\<close>, as
  array lengths are) the percentage is an integer within \<open>1 / 2 + (completed / total) / 2 ^ 44\<close>
  of \<open>completed / total * 100\<close>: \<^verbatim>\<open>Math.round\<close> of a product of doubles, not of the exact
  quotient. It is 100 when \<open>completed\<close> equals a positive \<open>total\<close>, and 0 when \<open>completed\<close> is
  0, also with total 0.
\<close>

theorem todayStats_values:
  "total_count (todayStats d gs dp) = length (filter (\<lambda>g. status g = Active) gs) \<and>
   completedToday (todayStats d gs dp) =
     (case find (\<lambda>p. date p = d) dp of
        None \<Rightarrow> 0
      | Some p \<Rightarrow> length (filter (\<lambda>r. completed r) (day_goals p))) \<and>
   (0 < total_count (todayStats d gs dp) \<and> total_count (todayStats d gs dp) < 2 ^ 53 \<and>
    0 < completedToday (todayStats d gs dp) \<and> completedToday (todayStats d gs dp) < 2 ^ 53 \<longrightarrow>
      (\<exists>p. percentage (todayStats d gs dp) = Finite (of_int p) \<and>
         \<bar>of_int p - (of_nat (completedToday (todayStats d gs dp)) :: rat)
                       / of_nat (total_count (todayStats d gs dp)) * 100\<bar>
           \<le> 1 / 2 + of_nat (completedToday (todayStats d gs dp))
                       / of_nat (total_count (todayStats d gs dp)) / 2 ^ 44)) \<and>
   (0 < total_count (todayStats d gs dp) \<and>
    completedToday (todayStats d gs dp) = total_count (todayStats d gs dp) \<longrightarrow>
      percentage (todayStats d gs dp) = Finite 100) \<and>
   (completedToday (todayStats d gs dp) = 0 \<longrightarrow> percentage (todayStats d gs dp) = Finite 0)"
proof -
  define t where "t = length (filter (\<lambda>g. status g = Active) gs)"
  define c where "c = length (filter (\<lambda>g. completed g) (day_goals (todayProgress d dp)))"
  have s: "todayStats d gs dp =
      \<lparr>total_count = t, completedToday = c,
       percentage = or_zero (Math_round (js_times100 (js_div c t)))\<rparr>"
    by (simp add: todayStats_def t_def c_def)
  have c': "c = (case find (\<lambda>p. date p = d) dp of
        None \<Rightarrow> 0
      | Some p \<Rightarrow> length (filter (\<lambda>r. completed r) (day_goals p)))"
    by (simp add: c_def todayProgress_def split: option.splits)
  have near: "\<exists>p. or_zero (Math_round (js_times100 (js_div c t))) = Finite (of_int p) \<and>
         \<bar>of_int p - (of_nat c :: rat) / of_nat t * 100\<bar> \<le> 1 / 2 + of_nat c / of_nat t / 2 ^ 44"
    if "0 < t \<and> t < 2 ^ 53 \<and> 0 < c \<and> c < 2 ^ 53"
  proof -
    have "0 < c" "c < 2 ^ 53" "0 < t" "t < 2 ^ 53" using that by simp_all
    then have "\<exists>p. Math_round (js_times100 (js_div c t)) = Finite (of_int p) \<and>
           \<bar>of_int p - (of_nat c :: rat) / of_nat t * 100\<bar>
             \<le> 1 / 2 + of_nat c / of_nat t / 2 ^ 44"
      by (rule percentage_error)
    then obtain p where p: "Math_round (js_times100 (js_div c t)) = Finite (of_int p)"
      "\<bar>of_int p - (of_nat c :: rat) / of_nat t * 100\<bar> \<le> 1 / 2 + of_nat c / of_nat t / 2 ^ 44"
      by blast
    show ?thesis
      by (rule exI [of _ p]) (simp only: p or_zero.simps simp_thms)
  qed
  have all: "or_zero (Math_round (js_times100 (js_div c t))) = Finite 100" if "0 < t \<and> c = t"
    using that by (simp only: percentage_all)
  have none: "or_zero (Math_round (js_times100 (js_div c t))) = Finite 0" if "c = 0"
    using that by (simp only: percentage_none)
  show ?thesis
    unfolding s TodayStats.simps
    using near all none by (intro conjI impI) (simp_all only: t_def [symmetric] c' [symmetric])
qed

lemma pausedTracker_eval:
  "pausedTracker = \<lparr>goals = [(newGoal ''g1'' Paused)
       \<lparr>currentCount := 1, streak := 1, bestStreak := 1, lastCompleted := Some 1\<rparr>],
     dailyProgress = [\<lparr>date = ''2024-03-01'',
       day_goals = [\<lparr>goalId = ''g1'', completed = True\<rparr>]\<rparr>]\<rparr>"
  by (simp add: pausedTracker_def doneTracker_eval [unfolded doneTracker_def]
        updateGoalStatus_def newGoal_def)

lemma forty_counts:
  "length (filter (\<lambda>g. status g = Active) fortyGoals) = 40"
  "find (\<lambda>p. date p = ''2024-03-01'') fortyLedger = Some (hd fortyLedger)"
  "length (filter (\<lambda>r. completed r) (day_goals (hd fortyLedger))) = 23"
  by (simp_all add: fortyGoals_def fortyLedger_def newGoal_def filter_map o_def)

theorem todayStats_values_witness:
  "total_count (todayStats ''2024-03-01'' (goals twoGoalTracker) (dailyProgress twoGoalTracker)) = 2 \<and>
   completedToday (todayStats ''2024-03-01'' (goals twoGoalTracker) (dailyProgress twoGoalTracker)) = 1 \<and>
   percentage (todayStats ''2024-03-01'' (goals twoGoalTracker) (dailyProgress twoGoalTracker))
     = Finite 50 \<and>
   total_count (todayStats ''2024-03-01'' (goals doneTracker) (dailyProgress doneTracker)) = 1 \<and>
   completedToday (todayStats ''2024-03-01'' (goals doneTracker) (dailyProgress doneTracker)) = 1 \<and>
   percentage (todayStats ''2024-03-01'' (goals doneTracker) (dailyProgress doneTracker))
     = Finite 100 \<and>
   total_count (todayStats ''2024-03-01'' (goals freshTracker) (dailyProgress freshTracker)) = 1 \<and>
   completedToday (todayStats ''2024-03-01'' (goals freshTracker) (dailyProgress freshTracker)) = 0 \<and>
   percentage (todayStats ''2024-03-01'' (goals freshTracker) (dailyProgress freshTracker))
     = Finite 0"
proof -
  note a = todayStats_values [of "''2024-03-01''" "goals twoGoalTracker" "dailyProgress twoGoalTracker"]
  note b = todayStats_values [of "''2024-03-01''" "goals doneTracker" "dailyProgress doneTracker"]
  note c = todayStats_values [of "''2024-03-01''" "goals freshTracker" "dailyProgress freshTracker"]
  have at: "total_count (todayStats ''2024-03-01'' (goals twoGoalTracker)
      (dailyProgress twoGoalTracker)) = 2"
    unfolding a [THEN conjunct1]
    by (simp add: twoGoalTracker_def doneTracker_eval newGoal_def)
  have ac: "completedToday (todayStats ''2024-03-01'' (goals twoGoalTracker)
      (dailyProgress twoGoalTracker)) = 1"
    unfolding a [THEN conjunct2, THEN conjunct1]
    by (simp add: twoGoalTracker_def doneTracker_eval)
  have "\<exists>p. percentage (todayStats ''2024-03-01'' (goals twoGoalTracker)
      (dailyProgress twoGoalTracker)) = Finite (of_int p) \<and>
      \<bar>of_int p - (1::rat) / 2 * 100\<bar> \<le> 1 / 2 + 1 / 2 / 2 ^ 44"
    using a [THEN conjunct2, THEN conjunct2, THEN conjunct1] by (simp add: at ac)
  then obtain p where p: "percentage (todayStats ''2024-03-01'' (goals twoGoalTracker)
      (dailyProgress twoGoalTracker)) = Finite (of_int p)"
    "\<bar>of_int p - (1::rat) / 2 * 100\<bar> \<le> 1 / 2 + 1 / 2 / 2 ^ 44"
    by blast
  have "(1::rat) / 2 + 1 / 2 / 2 ^ 44 < 1" by simp
  then have "(49::rat) < of_int p" "of_int p < (51::rat)" using p(2) by linarith+
  then have "49 < p" "p < 51" by simp_all
  then have "p = 50" by simp
  then have ap: "percentage (todayStats ''2024-03-01'' (goals twoGoalTracker)
      (dailyProgress twoGoalTracker)) = Finite 50"
    using p(1) by simp
  have bt: "total_count (todayStats ''2024-03-01'' (goals doneTracker)
      (dailyProgress doneTracker)) = 1"
    unfolding b [THEN conjunct1] by (simp add: doneTracker_eval newGoal_def)
  have bc: "completedToday (todayStats ''2024-03-01'' (goals doneTracker)
      (dailyProgress doneTracker)) = 1"
    unfolding b [THEN conjunct2, THEN conjunct1] by (simp add: doneTracker_eval)
  have bp: "percentage (todayStats ''2024-03-01'' (goals doneTracker)
      (dailyProgress doneTracker)) = Finite 100"
    using b [THEN conjunct2, THEN conjunct2, THEN conjunct2, THEN conjunct1] by (simp add: bt bc)
  have ct: "total_count (todayStats ''2024-03-01'' (goals freshTracker)
      (dailyProgress freshTracker)) = 1"
    unfolding c [THEN conjunct1] by (simp add: freshTracker_def newGoal_def)
  have cc: "completedToday (todayStats ''2024-03-01'' (goals freshTracker)
      (dailyProgress freshTracker)) = 0"
    unfolding c [THEN conjunct2, THEN conjunct1] by (simp add: freshTracker_def)
  have cp: "percentage (todayStats ''2024-03-01'' (goals freshTracker)
      (dailyProgress freshTracker)) = Finite 0"
    using c [THEN conjunct2, THEN conjunct2, THEN conjunct2, THEN conjunct2]
    by (simp add: cc)
  show ?thesis
    using at ac ap bt bc bp ct cc cp by (intro conjI)
qed

text \<open>
  The claim as worded fails twice. For a goal completed today and then paused no goal is
  active, so no active goal is completed today, yet \<open>completed\<close> is 1; and \<open>1 / 0\<close> is
  \<^verbatim>\<open>Infinity\<close>, which \<^verbatim>\<open>|| 0\<close> lets through, so the percentage is not 0 although the total is.
  And with 23 of 40 active goals completed, \<open>23 / 40 * 100\<close> is 57.5, which rounds to 58, but
  the double product is \<open>57.49999999999999\<close> and the percentage 57.
\<close>

theorem todayStats_counterexample:
  "total_count (todayStats ''2024-03-01'' (goals pausedTracker) (dailyProgress pausedTracker)) = 0 \<and>
   length (filter (\<lambda>g. status g = Active \<and>
       isCompletedOn (dailyProgress pausedTracker) ''2024-03-01'' (gid g)) (goals pausedTracker)) = 0 \<and>
   completedToday (todayStats ''2024-03-01'' (goals pausedTracker) (dailyProgress pausedTracker)) = 1 \<and>
   percentage (todayStats ''2024-03-01'' (goals pausedTracker) (dailyProgress pausedTracker))
     = PosInfinity \<and>
   total_count (todayStats ''2024-03-01'' fortyGoals fortyLedger) = 40 \<and>
   completedToday (todayStats ''2024-03-01'' fortyGoals fortyLedger) = 23 \<and>
   \<lfloor>(of_nat (completedToday (todayStats ''2024-03-01'' fortyGoals fortyLedger)) :: rat)
      / of_nat (total_count (todayStats ''2024-03-01'' fortyGoals fortyLedger)) * 100 + 1 / 2\<rfloor> = 58 \<and>
   percentage (todayStats ''2024-03-01'' fortyGoals fortyLedger) = Finite 57"
proof -
  have paused: "todayStats ''2024-03-01'' (goals pausedTracker) (dailyProgress pausedTracker) =
      \<lparr>total_count = 0, completedToday = 1, percentage = PosInfinity\<rparr>"
    by (simp add: pausedTracker_eval todayStats_def todayProgress_def newGoal_def js_div_def)
  have none: "length (filter (\<lambda>g. status g = Active \<and>
       isCompletedOn (dailyProgress pausedTracker) ''2024-03-01'' (gid g)) (goals pausedTracker)) = 0"
    by (simp add: pausedTracker_eval newGoal_def)
  have forty: "todayStats ''2024-03-01'' fortyGoals fortyLedger =
      \<lparr>total_count = 40, completedToday = 23, percentage = Finite 57\<rparr>"
    by (simp add: todayStats_def todayProgress_def forty_counts percentage_23_40)
  show ?thesis
    unfolding paused forty TodayStats.simps using none by (simp add: floor_eq_iff)
qed

section \<open>Loading persisted state\<close>






end
